(* ===== verification/Prelude.thy ===== *)
theory Prelude
  imports Main
begin

text \<open>
  Shared vocabulary of the development: JavaScript's reading of optional strings
  (\<open>undefined\<close> as \<open>None\<close>, the empty string as falsy), the names of the rule
  collections the component theories fill, and generic lemmas on event lists that
  the trace properties of the CLI use.
\<close>

named_theorems cli_defs "unfolding rules of the stages of the CLI script"
named_theorems trace_simps "rewrite rules for the event traces of the CLI"

text \<open>
  A JavaScript value that the TypeScript source types as \<open>string\<close> but that may be
  \<open>undefined\<close> at run time (a field of a result object that the library did not set).
\<close>

type_synonym js_string = "string option"

text \<open>
  Truthiness of such a value, as in \<open>if (!x)\<close> and \<open>x && ...\<close>: \<open>undefined\<close> and
  the empty string are falsy, every other string is truthy.
\<close>

definition js_truthy :: "js_string \<Rightarrow> bool" where
  "js_truthy s \<longleftrightarrow> (case s of None \<Rightarrow> False | Some v \<Rightarrow> v \<noteq> [])"

text \<open>The truthy value itself, when there is one (TypeScript's narrowing after a check).\<close>

definition truthy_value :: "js_string \<Rightarrow> string option" where
  "truthy_value s = (case s of None \<Rightarrow> None | Some v \<Rightarrow> if v = [] then None else Some v)"

text \<open>A template literal \<open>${x}\<close> of an optional string prints \<open>undefined\<close> for \<open>None\<close>.\<close>

definition js_template :: "js_string \<Rightarrow> string" where
  "js_template s = (case s of None \<Rightarrow> ''undefined'' | Some v \<Rightarrow> v)"

text \<open>
  A deterministic monitor over an event list: \<open>f s e\<close> is the monitor state after
  event \<open>e\<close>, \<open>None\<close> when \<open>e\<close> is not allowed in \<open>s\<close>. The protocol of the
  CLI and its confirmation discipline are both checked by monitors.
\<close>

fun run_monitor :: "('s \<Rightarrow> 'e \<Rightarrow> 's option) \<Rightarrow> 's \<Rightarrow> 'e list \<Rightarrow> 's option" where
  "run_monitor f s [] = Some s"
| "run_monitor f s (e # es) = (case f s e of None \<Rightarrow> None | Some s' \<Rightarrow> run_monitor f s' es)"

lemma truthy_value_Some [simp]: "truthy_value s = Some v \<longleftrightarrow> s = Some v \<and> v \<noteq> []"
  by (auto simp: truthy_value_def split: option.splits)

lemma truthy_value_None [simp]: "truthy_value s = None \<longleftrightarrow> \<not> js_truthy s"
  by (auto simp: truthy_value_def js_truthy_def split: option.splits)

lemma js_truthy_simps [simp]:
  "js_truthy None = False"
  "js_truthy (Some v) \<longleftrightarrow> v \<noteq> []"
  by (simp_all add: js_truthy_def)

lemma truthy_value_simps [simp]:
  "truthy_value None = None"
  "v \<noteq> [] \<Longrightarrow> truthy_value (Some v) = Some v"
  "truthy_value (Some []) = None"
  by (simp_all add: truthy_value_def)

lemma js_truthy_iff: "js_truthy s \<longleftrightarrow> (\<exists>v. s = Some v \<and> v \<noteq> [])"
  by (cases s) auto

lemma js_template_simps [simp]:
  "js_template None = ''undefined''"
  "js_template (Some v) = v"
  by (simp_all add: js_template_def)

text \<open>Generic facts on lists used for traces: filtering and the last matching element.\<close>

lemma filter_append_single [trace_simps]:
  "filter P (xs @ [x]) = (if P x then filter P xs @ [x] else filter P xs)"
  by simp

lemma last_filter_append_single [trace_simps]:
  "P x \<Longrightarrow> last (filter P (xs @ [x])) = x"
  by simp

lemma run_monitor_append [simp]:
  "run_monitor f s (xs @ ys) = Option.bind (run_monitor f s xs) (\<lambda>s'. run_monitor f s' ys)"
  by (induction xs arbitrary: s) (auto split: option.split)

lemma run_monitor_snoc [trace_simps]:
  "run_monitor f s xs = Some s' \<Longrightarrow> run_monitor f s (xs @ [e]) = f s' e"
  by (simp split: option.split)

end
