(* ===== verification/Js_Input.thy ===== *)
theory Js_Input
  imports Prelude
begin

text \<open>
  The reading of operator answers in \<open>src/src/index.ts\<close>: every answer of an
  \<open>inquirer\<close> prompt is a string, which the script passes through
  \<open>String.prototype.trim\<close> (lines 75--81) and the global \<open>parseInt\<close> with no radix
  (lines 76, 82, 168, 181). Both are ECMAScript built-ins; they are modelled here from
  the ECMAScript definition because the script's decisions (which network, which action,
  which output length) depend on exactly what they return. \<open>NaN\<close> is \<open>None\<close>.
  Characters are bytes (HOL's \<open>char\<close>); the whitespace set is the ASCII part of
  ECMAScript's WhiteSpace and LineTerminator.
\<close>

definition js_whitespace :: "char \<Rightarrow> bool" where
  "js_whitespace c \<longleftrightarrow> (of_char c :: nat) \<in> {9, 10, 11, 12, 13, 32}"

text \<open>\<open>String.prototype.trim\<close>: whitespace removed at both ends.\<close>

definition js_trim :: "string \<Rightarrow> string" where
  "js_trim s = rev (dropWhile js_whitespace (rev (dropWhile js_whitespace s)))"

text \<open>The value of a digit character in radix 36 (\<open>0-9\<close>, \<open>a-z\<close>, \<open>A-Z\<close>).\<close>

definition digit_value :: "char \<Rightarrow> nat option" where
  "digit_value c =
     (let n = (of_char c :: nat) in
      if 48 \<le> n \<and> n \<le> 57 then Some (n - 48)
      else if 97 \<le> n \<and> n \<le> 122 then Some (n - 87)
      else if 65 \<le> n \<and> n \<le> 90 then Some (n - 55)
      else None)"

text \<open>The longest prefix of digits valid in radix \<open>r\<close>, as digit values.\<close>

fun radix_digits :: "nat \<Rightarrow> string \<Rightarrow> nat list" where
  "radix_digits r [] = []"
| "radix_digits r (c # cs) =
     (case digit_value c of
        Some d \<Rightarrow> if d < r then d # radix_digits r cs else []
      | None \<Rightarrow> [])"

definition digits_to_nat :: "nat \<Rightarrow> nat list \<Rightarrow> nat" where
  "digits_to_nat r ds = foldl (\<lambda>acc d. acc * r + d) 0 ds"

text \<open>An optional sign: \<open>True\<close> when the number is negative.\<close>

definition js_sign :: "string \<Rightarrow> bool \<times> string" where
  "js_sign s =
     (case s of
        c # t \<Rightarrow> if c = CHR ''-'' then (True, t) else if c = CHR ''+'' then (False, t) else (False, s)
      | [] \<Rightarrow> (False, []))"

text \<open>With no radix argument a leading \<open>0x\<close> or \<open>0X\<close> selects radix 16.\<close>

definition js_radix_prefix :: "string \<Rightarrow> nat \<times> string" where
  "js_radix_prefix s =
     (case s of
        c # x # t \<Rightarrow>
          if c = CHR ''0'' \<and> (x = CHR ''x'' \<or> x = CHR ''X'') then (16, t) else (10, s)
      | _ \<Rightarrow> (10, s))"

text \<open>
  A JavaScript number is an IEEE binary64 value: an integer with more than 53
  significant bits becomes the nearest integer with 53, ties to the even one
  (ECMAScript 6.1.6.1). \<open>nat_bits\<close> is the number of bits of a magnitude.
\<close>

fun nat_bits :: "nat \<Rightarrow> nat" where
  "nat_bits n = (if n = 0 then 0 else Suc (nat_bits (n div 2)))"

definition round_mag :: "nat \<Rightarrow> nat" where
  "round_mag n =
     (if nat_bits n \<le> 53 then n
      else let k = nat_bits n - 53; q = n div 2 ^ k; r = n mod 2 ^ k in
           (if 2 * r < 2 ^ k \<or> (2 * r = 2 ^ k \<and> even q) then q else q + 1) * 2 ^ k)"

definition number_value :: "int \<Rightarrow> int" where
  "number_value i = sgn i * int (round_mag (nat \<bar>i\<bar>))"

text \<open>
  The integers a JavaScript number can hold: below \<open>2^53\<close> in magnitude, or a multiple
  of the power of two that the bits beyond the 53 significant ones force.
\<close>

definition js_double :: "int \<Rightarrow> bool" where
  "js_double v \<longleftrightarrow> (let n = nat \<bar>v\<bar> in n < 2 ^ 53 \<or> 2 ^ (nat_bits n - 53) dvd n)"

text \<open>
  \<open>parseInt(s)\<close> (ECMAScript 19.2.5): skip leading whitespace, read a sign and a radix
  prefix, then the longest run of digits; no digit at all gives \<open>NaN\<close>. Everything after
  the digits is ignored. \<open>parse_int_math\<close> is the mathematical value the steps compute
  (\<open>sign \<times> mathInt\<close>); \<open>parse_int\<close> returns its Number value.
\<close>

definition parse_int_math :: "string \<Rightarrow> int option" where
  "parse_int_math s =
     (let (neg, s1) = js_sign (dropWhile js_whitespace s);
          (r, s2) = js_radix_prefix s1;
          ds = radix_digits r s2
      in if ds = [] then None
         else Some ((if neg then -1 else 1) * int (digits_to_nat r ds)))"

definition parse_int :: "string \<Rightarrow> int option" where
  "parse_int s = map_option number_value (parse_int_math s)"

text \<open>Decimal notation of a natural number, the reference the parser is checked against.\<close>

fun decimal_string :: "nat \<Rightarrow> string" where
  "decimal_string n =
     (if n < 10 then [char_of (48 + n)] else decimal_string (n div 10) @ [char_of (48 + n mod 10)])"

text \<open>The digit character of a value below 36, lower case as \<open>Number.prototype.toString\<close> prints it.\<close>

definition digit_char :: "nat \<Rightarrow> char" where
  "digit_char d = (if d < 10 then char_of (48 + d) else char_of (87 + d))"

text \<open>The notation of a natural number in radix \<open>r\<close>, the reference for the hexadecimal reading.\<close>

function radix_string :: "nat \<Rightarrow> nat \<Rightarrow> string" where
  "radix_string r n =
     (if n < r \<or> r < 2 then [digit_char n] else radix_string r (n div r) @ [digit_char (n mod r)])"
  by pat_completeness auto
termination
  by (relation "measure snd") auto

text \<open>\<open>String(i)\<close> of an integer: its decimal notation, with \<open>-\<close> when negative.\<close>

definition int_string :: "int \<Rightarrow> string" where
  "int_string i = (if i < 0 then CHR ''-'' # decimal_string (nat (- i)) else decimal_string (nat i))"

subsection \<open>Integers as JavaScript numbers\<close>

declare nat_bits.simps [simp del]

lemma nat_bits_le: "n < 2 ^ k \<Longrightarrow> nat_bits n \<le> k"
proof (induction k arbitrary: n)
  case 0
  then show ?case by (simp add: nat_bits.simps)
next
  case (Suc k)
  then have "n div 2 < 2 ^ k" by simp
  with Suc.IH show ?case by (simp add: nat_bits.simps[of n])
qed

lemma nat_bits_less: "n < 2 ^ nat_bits n"
proof (induction n rule: nat_bits.induct)
  case (1 n)
  show ?case
  proof (cases "n = 0")
    case True
    then show ?thesis by (simp add: nat_bits.simps)
  next
    case False
    with "1.IH" have "n div 2 < 2 ^ nat_bits (n div 2)" by simp
    moreover have "n \<le> 2 * (n div 2) + 1" by presburger
    ultimately show ?thesis using False by (simp add: nat_bits.simps[of n])
  qed
qed

lemma nat_bits_ge: "0 < n \<Longrightarrow> 2 ^ (nat_bits n - 1) \<le> n"
proof (induction n rule: nat_bits.induct)
  case (1 n)
  show ?case
  proof (cases "n div 2 = 0")
    case True
    with "1.prems" show ?thesis by (simp add: nat_bits.simps[of n] nat_bits.simps[of 0])
  next
    case False
    with "1.IH" "1.prems" have ih: "2 ^ (nat_bits (n div 2) - 1) \<le> n div 2" by simp
    from False have pos: "0 < nat_bits (n div 2)" by (simp add: nat_bits.simps[of "n div 2"])
    have "2 ^ (nat_bits n - 1) = 2 * 2 ^ (nat_bits (n div 2) - 1)"
      using "1.prems" pos by (simp add: nat_bits.simps[of n] power_Suc[symmetric])
    also have "\<dots> \<le> 2 * (n div 2)" using ih by simp
    also have "\<dots> \<le> n" by simp
    finally show ?thesis .
  qed
qed

lemma round_mag_exact: "n < 2 ^ 53 \<Longrightarrow> round_mag n = n"
  using nat_bits_le[of n 53] by (simp add: round_mag_def)

lemma round_mag_ge:
  assumes n: "2 ^ 53 \<le> n"
  shows "2 ^ 53 \<le> round_mag n"
proof -
  define b where "b = nat_bits n"
  define k where "k = b - 53"
  have "(2::nat) ^ 53 < 2 ^ b" using n nat_bits_less[of n] by (simp add: b_def)
  then have b53: "53 < b" by (rule power_less_imp_less_exp[rotated]) simp
  then have bk: "b = Suc (52 + k)" and k1: "1 \<le> k" by (simp_all add: k_def)
  have "2 ^ (52 + k) \<le> n" using nat_bits_ge[of n] n by (simp add: b_def[symmetric] bk)
  then have q: "2 ^ 52 \<le> n div 2 ^ k" by (simp add: power_add less_eq_div_iff_mult_less_eq)
  have "round_mag n \<ge> (n div 2 ^ k) * 2 ^ k"
    using b53 by (simp add: round_mag_def b_def k_def Let_def)
  moreover have "(2::nat) ^ 53 \<le> 2 ^ 52 * 2 ^ k"
    using k1 power_increasing[of 1 k "2::nat"] by (simp add: power_add[symmetric])
  moreover have "(2::nat) ^ 52 * 2 ^ k \<le> (n div 2 ^ k) * 2 ^ k"
    using q by simp
  ultimately show ?thesis by linarith
qed

lemma number_value_small: "\<bar>i\<bar> < 2 ^ 53 \<Longrightarrow> number_value i = i"
proof -
  assume "\<bar>i\<bar> < 2 ^ 53"
  then have "nat \<bar>i\<bar> < 2 ^ 53" by (simp add: nat_less_iff)
  then show ?thesis by (simp add: number_value_def round_mag_exact sgn_mult_abs)
qed

lemma number_value_exact: "\<bar>number_value i\<bar> < 2 ^ 53 \<Longrightarrow> number_value i = i"
proof (cases "\<bar>i\<bar> < 2 ^ 53")
  case True
  then show ?thesis by (rule number_value_small)
next
  case False
  then have "2 ^ 53 \<le> nat \<bar>i\<bar>" by (simp add: le_nat_iff)
  then have "2 ^ 53 \<le> round_mag (nat \<bar>i\<bar>)" by (rule round_mag_ge)
  moreover from False have "i \<noteq> 0" by auto
  ultimately have "2 ^ 53 \<le> \<bar>number_value i\<bar>"
    by (simp add: number_value_def abs_mult)
  then show "\<bar>number_value i\<bar> < 2 ^ 53 \<Longrightarrow> number_value i = i" by simp
qed

lemma mult_pow_double:
  assumes "q < 2 ^ 53"
  shows "2 ^ (nat_bits (q * 2 ^ k) - 53) dvd q * (2::nat) ^ k"
proof -
  have "q * 2 ^ k < 2 ^ (53 + k)" using assms by (simp add: power_add)
  then have "nat_bits (q * 2 ^ k) - 53 \<le> k" using nat_bits_le by fastforce
  then have "2 ^ (nat_bits (q * 2 ^ k) - 53) dvd (2::nat) ^ k" by (rule le_imp_power_dvd)
  then show ?thesis by (rule dvd_mult)
qed

lemma round_mag_double: "round_mag n < 2 ^ 53 \<or> 2 ^ (nat_bits (round_mag n) - 53) dvd round_mag n"
proof (cases "nat_bits n \<le> 53")
  case True
  then have "n < 2 ^ 53"
    using nat_bits_less[of n] power_increasing[OF True, of "2::nat"] by linarith
  with True show ?thesis by (simp add: round_mag_def)
next
  case False
  define k where "k = nat_bits n - 53"
  have b: "nat_bits n = 53 + k" using False by (simp add: k_def)
  have "n < 2 ^ 53 * 2 ^ k" using nat_bits_less[of n] unfolding b power_add .
  then have q: "n div 2 ^ k < 2 ^ 53" by (simp add: less_mult_imp_div_less)
  obtain q' where r: "round_mag n = q' * 2 ^ k" and q': "q' \<le> 2 ^ 53"
    using False q by (auto simp: round_mag_def k_def Let_def)
  show ?thesis
  proof (cases "q' < 2 ^ 53")
    case True
    with r show ?thesis by (simp add: mult_pow_double)
  next
    case False
    with q' have "round_mag n = 2 ^ 52 * 2 ^ Suc k" by (simp add: r)
    then show ?thesis using mult_pow_double[of "2 ^ 52" "Suc k"] by simp
  qed
qed

lemma number_value_double: "js_double (number_value i)"
proof (cases "i = 0")
  case False
  then have "nat \<bar>number_value i\<bar> = round_mag (nat \<bar>i\<bar>)" by (simp add: number_value_def abs_mult)
  then show ?thesis using round_mag_double[of "nat \<bar>i\<bar>"] by (simp add: js_double_def Let_def)
qed (simp add: js_double_def number_value_def)

lemma parse_int_double: "parse_int s = Some v \<Longrightarrow> js_double v"
  by (auto simp: parse_int_def number_value_double)

subsection \<open>Numerals in any radix read back\<close>

declare decimal_string.simps [simp del] radix_string.simps [simp del]

lemma radix_digits_append:
  "\<forall>c \<in> set xs. \<exists>d. digit_value c = Some d \<and> d < r \<Longrightarrow>
   radix_digits r (xs @ ys) = radix_digits r xs @ radix_digits r ys"
  by (induction xs) auto

lemma digits_to_nat_snoc: "digits_to_nat r (ds @ [d]) = digits_to_nat r ds * r + d"
  by (simp add: digits_to_nat_def)

lemma digit_value_char: "d < 36 \<Longrightarrow> digit_value (digit_char d) = Some d"
  by (simp add: digit_value_def digit_char_def)

lemma digit_char_not_sign: "d < 36 \<Longrightarrow> digit_char d \<noteq> CHR ''-'' \<and> digit_char d \<noteq> CHR ''+''"
  by (auto simp: digit_char_def char_of_eq_iff take_bit_eq_mod)

lemma digit_char_zero: "d < 36 \<Longrightarrow> digit_char d = CHR ''0'' \<longleftrightarrow> d = 0"
  by (auto simp: digit_char_def char_of_eq_iff take_bit_eq_mod)

lemma digit_char_not_ws: "d < 36 \<Longrightarrow> \<not> js_whitespace (digit_char d)"
  by (auto simp: digit_char_def js_whitespace_def)

lemma radix_string_valid:
  "2 \<le> r \<Longrightarrow> r \<le> 36 \<Longrightarrow> \<forall>c \<in> set (radix_string r n). \<exists>d. digit_value c = Some d \<and> d < r"
proof (induction r n rule: radix_string.induct)
  case (1 r n)
  have "n mod r < 36" using "1.prems" by (meson le_trans mod_less_divisor not_less not_numeral_le_zero)
  with "1" show ?case
    by (cases "n < r") (simp_all add: radix_string.simps[of r n] digit_value_char)
qed

lemma digits_to_nat_radix_string:
  "2 \<le> r \<Longrightarrow> r \<le> 36 \<Longrightarrow> digits_to_nat r (radix_digits r (radix_string r n)) = n"
proof (induction r n rule: radix_string.induct)
  case (1 r n)
  show ?case
  proof (cases "n < r")
    case True
    with "1.prems" show ?thesis
      by (simp add: radix_string.simps[of r n] digit_value_char digits_to_nat_def)
  next
    case False
    have "n mod r < 36" using "1.prems" by (meson le_trans mod_less_divisor not_less not_numeral_le_zero)
    with "1.prems" False have "digits_to_nat r (radix_digits r (radix_string r n)) =
        digits_to_nat r (radix_digits r (radix_string r (n div r))) * r + n mod r"
      by (simp add: radix_string.simps[of r n] radix_digits_append radix_string_valid
                    digit_value_char digits_to_nat_snoc)
    with False "1.prems" "1.IH" show ?thesis by simp
  qed
qed

lemma radix_string_hd:
  "2 \<le> r \<Longrightarrow> \<exists>d cs. radix_string r n = digit_char d # cs \<and> d < r \<and> (0 < n \<longrightarrow> 0 < d)"
proof (induction r n rule: radix_string.induct)
  case (1 r n)
  show ?case
  proof (cases "n < r")
    case True
    then show ?thesis by (intro exI[of _ n] exI[of _ "[]"]) (simp add: radix_string.simps[of r n])
  next
    case False
    with "1.prems" "1.IH" obtain d cs where "radix_string r (n div r) = digit_char d # cs"
      "d < r" "0 < n div r \<longrightarrow> 0 < d"
      by auto
    moreover have "0 < n div r" using False "1.prems" by (simp add: div_greater_zero_iff)
    moreover have "radix_string r n = radix_string r (n div r) @ [digit_char (n mod r)]"
      using False "1.prems" by (simp add: radix_string.simps[of r n])
    ultimately show ?thesis by (intro exI[of _ d] exI[of _ "cs @ [digit_char (n mod r)]"]) simp
  qed
qed

lemma decimal_string_radix: "decimal_string n = radix_string 10 n"
proof (induction n rule: decimal_string.induct)
  case (1 n)
  then show ?case
    by (cases "n < 10")
       (simp_all add: decimal_string.simps[of n] radix_string.simps[of 10 n] digit_char_def)
qed

subsection \<open>Trimming before \<open>parseInt\<close>\<close>

lemma js_whitespace_not_digit: "js_whitespace c \<Longrightarrow> digit_value c = None"
  by (auto simp: js_whitespace_def digit_value_def)

lemma radix_digits_append_ws:
  "\<forall>c \<in> set W. js_whitespace c \<Longrightarrow> radix_digits r (v @ W) = radix_digits r v"
proof (induction v)
  case Nil
  then show ?case by (cases W) (auto simp: js_whitespace_not_digit)
next
  case (Cons c v)
  then show ?case by (auto split: option.split)
qed

lemma js_whitespace_not_sign: "js_whitespace c \<Longrightarrow> c \<noteq> CHR ''-'' \<and> c \<noteq> CHR ''+'' \<and> c \<noteq> CHR ''0''"
  by (auto simp: js_whitespace_def)

lemma js_sign_append_ws:
  "\<forall>c \<in> set W. js_whitespace c \<Longrightarrow> js_sign (u @ W) = (fst (js_sign u), snd (js_sign u) @ W)"
  by (cases u; cases W) (auto simp: js_sign_def dest: js_whitespace_not_sign)

lemma js_radix_prefix_append_ws:
  assumes W: "\<forall>c \<in> set W. js_whitespace c"
  shows "js_radix_prefix (u @ W) = (fst (js_radix_prefix u), snd (js_radix_prefix u) @ W)"
proof (cases u)
  case Nil
  with W show ?thesis
    by (cases W) (auto simp: js_radix_prefix_def split: list.split dest: js_whitespace_not_sign)
next
  case (Cons c v)
  show ?thesis
  proof (cases v)
    case Nil
    with Cons W show ?thesis
      by (cases W) (auto simp: js_radix_prefix_def js_whitespace_def)
  next
    case (Cons x t)
    with \<open>u = c # v\<close> show ?thesis by (simp add: js_radix_prefix_def)
  qed
qed

lemma trim_split:
  obtains W where "dropWhile js_whitespace s = js_trim s @ W" "\<forall>c \<in> set W. js_whitespace c"
    "dropWhile js_whitespace (js_trim s) = js_trim s"
proof -
  let ?t = "dropWhile js_whitespace s"
  let ?A = "dropWhile js_whitespace (rev ?t)"
  have split: "rev ?t = takeWhile js_whitespace (rev ?t) @ ?A" by simp
  then have t: "?t = rev ?A @ rev (takeWhile js_whitespace (rev ?t))"
    by (metis rev_append rev_rev_ident)
  have trim: "js_trim s = rev ?A" by (simp add: js_trim_def)
  have ws: "\<forall>c \<in> set (rev (takeWhile js_whitespace (rev ?t))). js_whitespace c"
    by (auto dest: set_takeWhileD)
  have "dropWhile js_whitespace (rev ?A) = rev ?A"
  proof (cases "rev ?A")
    case Nil
    then show ?thesis by (simp only: Nil dropWhile.simps(1))
  next
    case (Cons c cs)
    with t have "?t = c # cs @ rev (takeWhile js_whitespace (rev ?t))" by simp
    then have "\<not> js_whitespace c"
      by (metis hd_dropWhile list.distinct(1) list.sel(1))
    with Cons show ?thesis by simp
  qed
  with that t trim ws show ?thesis by simp
qed

text \<open>
  C17. Trimming an answer before \<open>parseInt\<close> changes nothing: \<open>parseInt\<close> skips
  leading whitespace and stops at trailing whitespace, so the \<open>.trim()\<close> applied to
  the network selector (line 76) and omitted for the output lengths (lines 82, 181) has
  no effect on the value read.
\<close>

theorem parse_int_trim: "parse_int (js_trim s) = parse_int s"
proof -
  obtain W where d: "dropWhile js_whitespace s = js_trim s @ W" and W: "\<forall>c \<in> set W. js_whitespace c"
    and d': "dropWhile js_whitespace (js_trim s) = js_trim s"
    by (rule trim_split)
  show ?thesis
    using W by (simp add: parse_int_def parse_int_math_def d d' js_sign_append_ws js_radix_prefix_append_ws
                          radix_digits_append_ws split_def Let_def)
qed

subsection \<open>Signed and hexadecimal numerals\<close>

lemma js_sign_digit: "d < 36 \<Longrightarrow> js_sign (digit_char d # t) = (False, digit_char d # t)"
  by (simp add: js_sign_def digit_char_not_sign)

lemma js_radix_prefix_dec:
  "c \<noteq> CHR ''0'' \<or> (take 1 t \<noteq> ''x'' \<and> take 1 t \<noteq> ''X'') \<Longrightarrow> js_radix_prefix (c # t) = (10, c # t)"
  by (cases t) (auto simp: js_radix_prefix_def)

lemma radix_read:
  assumes "2 \<le> r" "r \<le> 36" "radix_digits r s = []"
  shows "radix_digits r (radix_string r n @ s) \<noteq> [] \<and>
         digits_to_nat r (radix_digits r (radix_string r n @ s)) = n"
proof -
  obtain d cs where d: "radix_string r n = digit_char d # cs" "d < r"
    using radix_string_hd[OF assms(1), of n] by auto
  with assms have "radix_digits r (radix_string r n) \<noteq> []"
    by (simp add: digit_value_char)
  with assms show ?thesis
    by (simp add: radix_digits_append radix_string_valid digits_to_nat_radix_string)
qed

lemma parse_int_math_int_string:
  assumes ws: "\<forall>c \<in> set ws. js_whitespace c" and s: "radix_digits 10 s = []"
    and x: "i \<noteq> 0 \<or> (take 1 s \<noteq> ''x'' \<and> take 1 s \<noteq> ''X'')"
  shows "parse_int_math (ws @ int_string i @ s) = Some i"
proof -
  define m where "m = nat \<bar>i\<bar>"
  have str: "int_string i = (if i < 0 then CHR ''-'' # decimal_string m else decimal_string m)"
    by (simp add: int_string_def m_def)
  obtain d cs where d: "decimal_string m = digit_char d # cs" "d < 10" "0 < m \<longrightarrow> 0 < d"
    using radix_string_hd[of 10 m] by (auto simp: decimal_string_radix)
  have read: "radix_digits 10 (decimal_string m @ s) \<noteq> [] \<and>
              digits_to_nat 10 (radix_digits 10 (decimal_string m @ s)) = m"
    using radix_read[of 10 s m] s by (simp add: decimal_string_radix)
  have "digit_char d \<noteq> CHR ''0'' \<or> (take 1 (cs @ s) \<noteq> ''x'' \<and> take 1 (cs @ s) \<noteq> ''X'')"
  proof (cases "d = 0")
    case True
    with d have "m = 0" by auto
    with d have "cs = []" by (simp add: decimal_string.simps[of 0])
    with x \<open>m = 0\<close> show ?thesis by (auto simp: m_def)
  next
    case False
    with d show ?thesis by (simp add: digit_char_zero)
  qed
  with d have pre: "js_radix_prefix (decimal_string m @ s) = (10, decimal_string m @ s)"
    by (simp add: js_radix_prefix_dec)
  have nws: "\<not> js_whitespace (CHR ''-'')" "\<not> js_whitespace (digit_char d)"
    using d by (simp add: js_whitespace_def, simp add: digit_char_not_ws)
  show ?thesis
  proof (cases "i < 0")
    case True
    with ws nws have "dropWhile js_whitespace (ws @ int_string i @ s) = CHR ''-'' # decimal_string m @ s"
      by (simp add: str dropWhile_append)
    with True read pre show ?thesis by (simp add: parse_int_math_def js_sign_def m_def)
  next
    case False
    with ws nws d have "dropWhile js_whitespace (ws @ int_string i @ s) = decimal_string m @ s"
      by (simp add: str dropWhile_append)
    with False read pre d show ?thesis by (simp add: parse_int_math_def js_sign_digit m_def)
  qed
qed

text \<open>
  C27. \<open>parseInt\<close> reads back \<open>String(i)\<close> of every integer \<open>i\<close> with
  \<open>|i| < 2^53\<close>, negative and zero included, after leading whitespace and before anything that is not a decimal digit;
  the one exception is the answer \<open>0\<close> followed by \<open>x\<close> or \<open>X\<close>, which starts a
  hexadecimal numeral (so \<open>'-1'\<close> and \<open>'0'\<close> select no action at line 168).
\<close>

theorem parse_int_int_string:
  assumes "\<forall>c \<in> set ws. js_whitespace c" and "radix_digits 10 s = []"
    and "i \<noteq> 0 \<or> (take 1 s \<noteq> ''x'' \<and> take 1 s \<noteq> ''X'')" and "\<bar>i\<bar> < 2 ^ 53"
  shows "parse_int (ws @ int_string i @ s) = Some i"
  using parse_int_math_int_string[OF assms(1-3)] assms(4)
  by (simp add: parse_int_def number_value_small)

theorem parse_int_int_string_witness:
  "list_all js_whitespace '' '' \<and> radix_digits 10 ''.5'' = [] \<and> (-12::int) \<noteq> 0 \<and> \<bar>-12::int\<bar> < 2 ^ 53 \<and>
   parse_int ('' '' @ int_string (-12) @ ''.5'') = Some (-12)"
proof -
  have a: "\<forall>c \<in> set '' ''. js_whitespace c" "radix_digits 10 ''.5'' = []"
    "(-12::int) \<noteq> 0 \<or> (take 1 ''.5'' \<noteq> ''x'' \<and> take 1 ''.5'' \<noteq> ''X'')"
    "\<bar>-12::int\<bar> < 2 ^ 53"
    by (simp_all add: js_whitespace_def digit_value_def)
  show ?thesis using a parse_int_int_string[OF a] by (simp add: list_all_iff)
qed

lemma parse_int_math_hex_string:
  assumes ws: "\<forall>c \<in> set ws. js_whitespace c" and s: "radix_digits 16 s = []"
    and x: "x = CHR ''x'' \<or> x = CHR ''X''"
  shows "parse_int_math (ws @ CHR ''0'' # x # radix_string 16 n @ s) = Some (int n)"
proof -
  have "\<not> js_whitespace (CHR ''0'')" by (simp add: js_whitespace_def)
  with ws have "dropWhile js_whitespace (ws @ CHR ''0'' # x # radix_string 16 n @ s) =
                CHR ''0'' # x # radix_string 16 n @ s"
    by (simp add: dropWhile_append)
  with x radix_read[of 16 s n] s show ?thesis
    by (auto simp: parse_int_math_def js_sign_def js_radix_prefix_def)
qed

text \<open>
  C28. With no radix argument \<open>parseInt\<close> also reads hexadecimal: after leading
  whitespace, \<open>0x\<close> or \<open>0X\<close> followed by the hexadecimal notation of \<open>n < 2^53\<close> reads
  as \<open>n\<close>. So the answers \<open>'0x1'\<close> and \<open>'0x2'\<close> select the actions at line 168, and
  \<open>'0x1'\<close> the network selector 1 at line 76.
\<close>

theorem parse_int_hex_string:
  assumes "\<forall>c \<in> set ws. js_whitespace c" and "radix_digits 16 s = []"
    and "x = CHR ''x'' \<or> x = CHR ''X''" and "n < 2 ^ 53"
  shows "parse_int (ws @ CHR ''0'' # x # radix_string 16 n @ s) = Some (int n)"
  using parse_int_math_hex_string[OF assms(1-3)] assms(4)
  by (simp add: parse_int_def number_value_small)

theorem parse_int_hex_string_witness:
  "list_all js_whitespace '' '' \<and> radix_digits 16 '' '' = [] \<and>
   (CHR ''X'' = CHR ''x'' \<or> CHR ''X'' = CHR ''X'') \<and> radix_string 16 255 = ''ff'' \<and> (255::nat) < 2 ^ 53 \<and>
   parse_int ('' '' @ CHR ''0'' # CHR ''X'' # radix_string 16 255 @ '' '') = Some 255"
proof -
  have a: "\<forall>c \<in> set '' ''. js_whitespace c" "radix_digits 16 '' '' = []"
    "CHR ''X'' = CHR ''x'' \<or> CHR ''X'' = CHR ''X''" "(255::nat) < 2 ^ 53"
    by (simp_all add: js_whitespace_def digit_value_def)
  have "radix_string 16 255 = ''ff''"
    by (simp add: radix_string.simps[of 16 255] radix_string.simps[of 16 15] digit_char_def char_of_eq_iff)
  with a show ?thesis using parse_int_hex_string[OF a] by (simp add: list_all_iff)
qed

subsection \<open>Safe integers and rounding\<close>

text \<open>
  C29. \<open>parseInt\<close> returns an integer \<open>c\<close> of magnitude below \<open>2^53\<close> exactly when
  the numeral it reads has the mathematical value \<open>c\<close>: no other numeral rounds onto a
  safe integer, so the comparisons with 1, 2 and 3 at lines 76 and 168 and a length
  below \<open>2^53\<close> are decided on the digits the user typed.
\<close>

theorem parse_int_safe:
  assumes "\<bar>c\<bar> < 2 ^ 53"
  shows "parse_int s = Some c \<longleftrightarrow> parse_int_math s = Some c"
proof (cases "parse_int_math s")
  case (Some m)
  have "number_value m = c \<longleftrightarrow> m = c"
    using assms number_value_exact[of m] number_value_small[of c] by auto
  with Some show ?thesis by (simp add: parse_int_def)
qed (simp add: parse_int_def)

theorem parse_int_safe_witness:
  "\<bar>1::int\<bar> < 2 ^ 53 \<and> (parse_int ''1'' = Some 1 \<longleftrightarrow> parse_int_math ''1'' = Some 1)"
  using parse_int_safe[of 1 "''1''"] by simp

end
