(* ===== verification/Executor.thy ===== *)
theory Executor
  imports Prelude
begin

text \<open>
  The interface between the CLI script and the transaction executor, the \<open>RNG\<close>
  instance of the external library \<open>rng-ts-lib\<close> (\<open>src/src/index.ts\<close>, line 4 and
  line 74). The library is not part of the repository; what the script relies on is
  the shape of its calls and of their results, which this theory fixes:
  \<^item> \<open>rng_config\<close>, the options object given to \<open>new RNG(...)\<close> (lines 74--83);
  \<^item> \<open>rng_call\<close>, one constructor per method the script calls, with the arguments it
    passes: \<open>instance.oracle.mint\<close>, \<open>instance.init\<close>, \<open>instance.oracle.register\<close>,
    \<open>instance.oracle.update\<close>, \<open>instance.oracle.query\<close>, \<open>instance.updateConfig\<close>;
  \<^item> \<open>exec_result\<close>, the \<open>{ data, error }\<close> object every call resolves to, with the
    payload fields the script reads (\<open>txHash\<close>, \<open>oracleDIDUnit\<close>, \<open>rngOutput\<close>),
    each of which may be \<open>undefined\<close>;
  \<^item> \<open>executor\<close>, the executor itself: a step function from a call and its hidden
    state to a result and the next state. The CLI's lemmas are stated for every
    executor (a type variable \<open>'x\<close> of hidden state); concrete executors are given
    in \<open>Fake_Executor\<close>.
\<close>

record rng_config =
  blockfrostApiKey :: string
  network :: "int option"
  ogmiosURL :: string
  oracleCBOR :: string
  rngAPIURL :: string
  rngCBOR :: string
  walletSeed :: string
  rngOutputLen :: "int option"

datatype rng_call =
    OracleMint string
  | Init
  | OracleRegister string js_string
  | OracleUpdate string js_string string
  | OracleQuery string
  | UpdateConfig string "int option"

record payload =
  txHash :: js_string
  oracleDIDUnit :: js_string
  rngOutput :: js_string

record exec_result =
  data :: "payload option"
  error :: js_string

type_synonym 'x executor = "rng_call \<Rightarrow> 'x \<Rightarrow> exec_result \<times> 'x"

text \<open>
  \<open>result?.data?.txHash\<close> read as the transaction id of a call: present exactly when
  it is a non-empty string, the condition \<open>if (!data?.txHash) throw\<close> of the script
  tests (lines 100, 145, 211). This is also the interface's notion of a successful
  transaction (spec, section 4.1).
\<close>

definition tx_of :: "exec_result \<Rightarrow> string option" where
  "tx_of r = truthy_value (Option.bind (data r) txHash)"

text \<open>The calls that submit a transaction to the chain, each followed by a confirmation wait.\<close>

fun submits :: "rng_call \<Rightarrow> bool" where
  "submits (OracleMint _) = True"
| "submits Init = True"
| "submits (OracleRegister _ _) = True"
| "submits (OracleUpdate _ _ _) = True"
| "submits (OracleQuery _) = False"
| "submits (UpdateConfig _ _) = False"

lemma tx_of_Some_iff:
  "tx_of r = Some t \<longleftrightarrow> (\<exists>p. data r = Some p \<and> txHash p = Some t \<and> t \<noteq> [])"
  by (auto simp: tx_of_def split: Option.bind_splits)

lemma tx_of_nonempty [dest]: "tx_of r = Some t \<Longrightarrow> t \<noteq> []"
  by (auto simp: tx_of_Some_iff)

lemma tx_of_None_iff:
  "tx_of r = None \<longleftrightarrow> \<not> js_truthy (Option.bind (data r) txHash)"
  by (simp add: tx_of_def)

end
