(* ===== verification/Cli.thy ===== *)
theory Cli
  imports Js_Input Executor
begin

text \<open>
  The CLI script \<open>src/src/index.ts\<close> as a function of its inputs. Its module-level
  state (the \<open>RNG\<close> instance, \<open>BASE_ORACLEDID\<close>, \<open>CURR_ORACLE_UPDATED_TX\<close>) is the
  record \<open>world\<close>, extended by the list of observable events: the executor calls with
  their results, the confirmation sleeps and the console lines. Each block of the
  script is one definition, in the order of the source: the bootstrap stages
  (mint, RNG init, register: lines 85--156), the loop's two actions (generate and query:
  lines 170--226), one loop iteration, the loop and the whole script. A \<open>throw\<close> is
  the left value of a stage (\<open>Inl\<close>, with the world at the point of the throw); the
  operator never answering a prompt is the halt \<open>Awaiting\<close>, since the script then
  waits forever.
\<close>

text \<open>
  \<open>networkData\<close> (lines 6--21): the two networks the CLI knows, by selector. The
  script exports it but never reads it; in particular the selector it passes to
  \<open>new RNG\<close> is not looked up here.
\<close>

record network_info =
  network_name :: string
  blockfrostURL :: string

definition networkData :: "int \<Rightarrow> network_info option" where
  "networkData =
     [0 \<mapsto> \<lparr>network_name = ''Preprod'',
           blockfrostURL = ''https://cardano-preprod.blockfrost.io/api/v0''\<rparr>,
      1 \<mapsto> \<lparr>network_name = ''Mainnet'',
           blockfrostURL = ''https://cardano-mainnet.blockfrost.io/api/v0''\<rparr>]"

text \<open>The answers to the first prompt (lines 23--61).\<close>

record base_params =
  bp_network :: string
  bp_blockfrostApiKey :: string
  bp_rngAPIURL :: string
  bp_ogmiosURL :: string
  bp_oracleCBOR :: string
  bp_rngCBOR :: string
  bp_walletSeed :: string
  bp_rngOutputLen :: string

text \<open>\<open>BASE_ORACLEDID\<close> (lines 63--66); \<open>unit\<close> may be \<open>undefined\<close> at run time.\<close>

record oracle_did =
  unit :: js_string
  registered :: bool

text \<open>
  The errors the script throws: \<open>throw Error(...)\<close> at each stage check, and the
  \<open>TypeError\<close> JavaScript raises when the script reads a property of \<open>undefined\<close>
  or \<open>null\<close>. The payload is the library's \<open>error\<close> field the message is made of.
\<close>

datatype cli_error =
    MintError js_string
  | InitError js_string
  | RegisterError js_string
  | UpdateError js_string
  | TypeError string

datatype event =
    Called rng_call exec_result
  | Slept nat
  | Logged string

record 'x world =
  rng :: 'x
  base_oracledid :: "oracle_did option"
  curr_oracle_updated_tx :: "string option"
  events :: "event list"

datatype 'x halt =
    Crashed cli_error "'x world"
  | Awaiting "'x world"

type_synonym ('x, 'a) stage = "'x world \<Rightarrow> (cli_error \<times> 'x world) + ('a \<times> 'x world)"

text \<open>The options of \<open>new RNG(...)\<close> (lines 74--83).\<close>

definition rng_config_of :: "base_params \<Rightarrow> rng_config" where
  "rng_config_of bp =
     \<lparr>blockfrostApiKey = js_trim (bp_blockfrostApiKey bp),
      network = parse_int (js_trim (bp_network bp)),
      ogmiosURL = js_trim (bp_ogmiosURL bp),
      oracleCBOR = js_trim (bp_oracleCBOR bp),
      rngAPIURL = js_trim (bp_rngAPIURL bp),
      rngCBOR = js_trim (bp_rngCBOR bp),
      walletSeed = js_trim (bp_walletSeed bp),
      rngOutputLen = parse_int (bp_rngOutputLen bp)\<rparr>"

text \<open>The module state before the first stage (lines 63--83).\<close>

definition initial_world :: "(rng_config \<Rightarrow> 'x) \<Rightarrow> base_params \<Rightarrow> 'x world" where
  "initial_world new_rng bp =
     \<lparr>rng = new_rng (rng_config_of bp), base_oracledid = None,
      curr_oracle_updated_tx = None, events = []\<rparr>"

text \<open>One awaited call of the \<open>RNG\<close> instance, recorded with its result.\<close>

definition call_rng :: "'x executor \<Rightarrow> rng_call \<Rightarrow> 'x world \<Rightarrow> exec_result \<times> 'x world" where
  "call_rng ex c w =
     (let (r, x') = ex c (rng w) in (r, w\<lparr>rng := x', events := events w @ [Called c r]\<rparr>))"

text \<open>\<open>sleep(ms)\<close> (lines 70--72), the confirmation waiter, and \<open>console.log\<close>.\<close>

definition sleep :: "nat \<Rightarrow> 'x world \<Rightarrow> 'x world" where
  "sleep ms w = w\<lparr>events := events w @ [Slept ms]\<rparr>"

definition confirmation_ms :: nat where
  "confirmation_ms = 120 * 1000"

definition log_line :: "string \<Rightarrow> 'x world \<Rightarrow> 'x world" where
  "log_line s w = w\<lparr>events := events w @ [Logged s]\<rparr>"

text \<open>Minting the Oracle DID (lines 95--115).\<close>

definition mint_stage :: "'x executor \<Rightarrow> string \<Rightarrow> ('x, unit) stage" where
  "mint_stage ex name w =
     (let (r, w1) = call_rng ex (OracleMint name) w in
      if tx_of r = None then Inl (MintError (error r), w1)
      else Inr ((), (sleep confirmation_ms w1)
                 \<lparr>base_oracledid := Some \<lparr>unit = Option.bind (data r) oracleDIDUnit, registered = False\<rparr>\<rparr>))"

text \<open>
  \<open>instance.init()\<close> with its check and wait (lines 123--133; the loop repeats the same
  block at lines 184--198). Only \<open>data\<close> is checked; a missing \<open>txHash\<close> fails at
  \<open>txHash.slice(0, 6)\<close> in the spinner text.
\<close>

definition rng_init_stage :: "'x executor \<Rightarrow> ('x, string) stage" where
  "rng_init_stage ex w =
     (let (r, w1) = call_rng ex Init w in
      case data r of
        None \<Rightarrow> Inl (InitError (error r), w1)
      | Some d \<Rightarrow>
          (case txHash d of
             None \<Rightarrow> Inl (TypeError ''Cannot read properties of undefined (reading slice)'', w1)
           | Some h \<Rightarrow> Inr (h, sleep confirmation_ms w1)))"

text \<open>Registering the Oracle DID (lines 135--156).\<close>

definition register_stage :: "'x executor \<Rightarrow> string \<Rightarrow> ('x, unit) stage" where
  "register_stage ex init_tx w =
     (case base_oracledid w of
        None \<Rightarrow> Inl (TypeError ''Cannot read properties of null (reading unit)'', w)
      | Some did \<Rightarrow>
          (let (r, w1) = call_rng ex (OracleRegister init_tx (unit did)) w in
           case tx_of r of
             None \<Rightarrow> Inl (RegisterError (error r), w1)
           | Some tx \<Rightarrow>
               Inr ((), (sleep confirmation_ms w1)
                     \<lparr>curr_oracle_updated_tx := Some tx,
                      base_oracledid := Some \<lparr>unit = unit did, registered = True\<rparr>\<rparr>)))"

text \<open>The bootstrap sequence, from the first console line to the registration (lines 85--156).\<close>

definition bootstrap :: "'x executor \<Rightarrow> string \<Rightarrow> ('x, unit) stage" where
  "bootstrap ex name w0 =
     (case mint_stage ex name (log_line ''Creating Oracle DID for you'' w0) of
        Inl ew \<Rightarrow> Inl ew
      | Inr (_, w1) \<Rightarrow>
          (case rng_init_stage ex
                  (log_line ''To register the Oracle DID, We need initial RNG transaction to pass the data with it'' w1) of
             Inl ew \<Rightarrow> Inl ew
           | Inr (init_tx, w2) \<Rightarrow> register_stage ex init_tx w2))"

text \<open>Updating the Oracle DID with a new RNG transaction (lines 200--217).\<close>

definition update_stage :: "'x executor \<Rightarrow> string \<Rightarrow> string \<Rightarrow> ('x, unit) stage" where
  "update_stage ex init_tx head w =
     (case base_oracledid w of
        None \<Rightarrow> Inl (TypeError ''Cannot read properties of null (reading unit)'', w)
      | Some did \<Rightarrow>
          (let (r, w1) = call_rng ex (OracleUpdate init_tx (unit did) head) w in
           case tx_of r of
             None \<Rightarrow> Inl (UpdateError (error r), w1)
           | Some tx \<Rightarrow> Inr ((), (sleep confirmation_ms w1)\<lparr>curr_oracle_updated_tx := Some tx\<rparr>)))"

text \<open>
  Action 1, generate (lines 170--218): read the output length, reconfigure, init, update.
  \<open>head\<close> is \<open>CURR_ORACLE_UPDATED_TX\<close> as narrowed by the guard of line 170; the
  remaining operator answers are threaded through.
\<close>

definition generate_action ::
  "'x executor \<Rightarrow> string \<Rightarrow> string list \<Rightarrow> 'x world \<Rightarrow> 'x halt + (string list \<times> 'x world)" where
  "generate_action ex head inp w =
     (case inp of
        [] \<Rightarrow> Inl (Awaiting w)
      | len # inp' \<Rightarrow>
          (let w1 = snd (call_rng ex (UpdateConfig ''rngOutputLen'' (parse_int len)) w) in
           case rng_init_stage ex w1 of
             Inl (e, w2) \<Rightarrow> Inl (Crashed e w2)
           | Inr (init_tx, w2) \<Rightarrow>
               (case update_stage ex init_tx head w2 of
                  Inl (e, w3) \<Rightarrow> Inl (Crashed e w3)
                | Inr (_, w3) \<Rightarrow> Inr (inp', w3))))"

text \<open>Action 2, query (lines 220--225): the result is printed, a failure prints \<open>undefined\<close>.\<close>

definition query_action :: "'x executor \<Rightarrow> string \<Rightarrow> 'x world \<Rightarrow> 'x world" where
  "query_action ex head w =
     (let (r, w1) = call_rng ex (OracleQuery head) w in
      log_line (''Random Number from Oracle: '' @ js_template (Option.bind (data r) rngOutput)) w1)"

text \<open>
  One iteration of \<open>while (true)\<close> (lines 158--226): the action prompt, \<open>parseInt\<close>,
  then the two independent \<open>if\<close>s, each guarded by the choice and the truthiness of
  \<open>CURR_ORACLE_UPDATED_TX\<close>. Any other answer does nothing.
\<close>

definition loop_body ::
  "'x executor \<Rightarrow> string list \<Rightarrow> 'x world \<Rightarrow> 'x halt + (string list \<times> 'x world)" where
  "loop_body ex inp w =
     (case inp of
        [] \<Rightarrow> Inl (Awaiting w)
      | answer # inp1 \<Rightarrow>
          (let choice = parse_int answer in
           case (case truthy_value (curr_oracle_updated_tx w) of
                   Some head \<Rightarrow> if choice = Some 1 then generate_action ex head inp1 w else Inr (inp1, w)
                 | None \<Rightarrow> Inr (inp1, w)) of
             Inl h \<Rightarrow> Inl h
           | Inr (inp2, w2) \<Rightarrow>
               Inr (inp2,
                    case truthy_value (curr_oracle_updated_tx w2) of
                      Some head \<Rightarrow> if choice = Some 2 then query_action ex head w2 else w2
                    | None \<Rightarrow> w2)))"

text \<open>
  The loop runs until a stage throws or the operator stops answering. Every iteration
  reads at least one answer, so the recursion is well-founded in the number of answers
  left; an unbounded operator session is any finite prefix of answers.
\<close>

function action_loop :: "'x executor \<Rightarrow> string list \<Rightarrow> 'x world \<Rightarrow> 'x halt" where
  "action_loop ex inp w =
     (case loop_body ex inp w of
        Inl h \<Rightarrow> h
      | Inr (inp', w') \<Rightarrow> action_loop ex inp' w')"
  by pat_completeness auto
termination
  by (relation "measure (\<lambda>(ex, inp, w). length inp)")
     (auto simp: loop_body_def generate_action_def Let_def
           split: list.splits option.splits if_splits sum.splits prod.splits)

text \<open>The whole script: the initial state, the bootstrap, then the action loop.\<close>

definition main ::
  "'x executor \<Rightarrow> (rng_config \<Rightarrow> 'x) \<Rightarrow> base_params \<Rightarrow> string \<Rightarrow> string list \<Rightarrow> 'x halt" where
  "main ex new_rng bp name inp =
     (case bootstrap ex name (initial_world new_rng bp) of
        Inl (e, w) \<Rightarrow> Crashed e w
      | Inr (_, w) \<Rightarrow> action_loop ex inp w)"

text \<open>
  The state the action loop keeps: the Oracle DID registered with a fixed unit, and a
  truthy \<open>CURR_ORACLE_UPDATED_TX\<close>. Under it the guards of lines 170 and 220 reduce
  to the operator's choice.
\<close>
definition loop_inv :: "js_string \<Rightarrow> 'x world \<Rightarrow> bool" where
  "loop_inv u w \<longleftrightarrow>
     base_oracledid w = Some \<lparr>unit = u, registered = True\<rparr> \<and> js_truthy (curr_oracle_updated_tx w)"

subsection \<open>Stage lemmas\<close>

declare action_loop.simps [simp del]

declare rng_config_of_def [cli_defs] initial_world_def [cli_defs] mint_stage_def [cli_defs]
  rng_init_stage_def [cli_defs] register_stage_def [cli_defs] bootstrap_def [cli_defs]
  update_stage_def [cli_defs] generate_action_def [cli_defs] query_action_def [cli_defs]
  main_def [cli_defs]

lemma call_rng_eq:
  "call_rng ex c w =
     (fst (ex c (rng w)),
      w\<lparr>rng := snd (ex c (rng w)), events := events w @ [Called c (fst (ex c (rng w)))]\<rparr>)"
  by (simp add: call_rng_def split_def Let_def)

lemmas stage_unfold = call_rng_eq sleep_def log_line_def Let_def

lemma query_action_frame [simp]:
  "base_oracledid (query_action ex h w) = base_oracledid w"
  "curr_oracle_updated_tx (query_action ex h w) = curr_oracle_updated_tx w"
  "rng (query_action ex h w) = snd (ex (OracleQuery h) (rng w))"
  by (simp_all add: query_action_def stage_unfold)

lemma loop_body_dispatch:
  assumes "curr_oracle_updated_tx w = Some h" and "h \<noteq> []"
  shows "loop_body ex (a # inp) w =
           (if parse_int a = Some 1 then generate_action ex h inp w
            else Inr (inp, if parse_int a = Some 2 then query_action ex h w else w))"
  using assms by (auto simp: loop_body_def Let_def split: sum.split prod.split option.split)

lemma loop_body_Nil: "loop_body ex [] w = Inl (Awaiting w)"
  by (simp add: loop_body_def)

lemma action_loop_Nil [simp]: "action_loop ex [] w = Awaiting w"
  by (simp add: action_loop.simps loop_body_Nil)

lemma action_loop_Cons:
  "action_loop ex (a # inp) w =
     (case loop_body ex (a # inp) w of Inl h \<Rightarrow> h | Inr (inp', w') \<Rightarrow> action_loop ex inp' w')"
  by (rule action_loop.simps)

lemma loop_body_Awaiting: "loop_body ex inp w = Inl (Awaiting w') \<Longrightarrow> w' = w"
  by (auto simp: loop_body_def generate_action_def Let_def
           split: list.splits option.splits if_splits sum.splits prod.splits)

text \<open>What an init stage leaves behind on each branch: the call, and the wait when it passed.\<close>

lemma rng_init_stage_Inr:
  "rng_init_stage ex w = Inr (t, w') \<Longrightarrow>
     Option.bind (data (fst (ex Init (rng w)))) txHash = Some t \<and>
     w' = sleep confirmation_ms (snd (call_rng ex Init w))"
  by (auto simp: rng_init_stage_def call_rng_eq split: option.splits)

lemma rng_init_stage_Inl:
  "rng_init_stage ex w = Inl (e, w') \<Longrightarrow> w' = snd (call_rng ex Init w)"
  by (auto simp: rng_init_stage_def call_rng_eq split: option.splits)

lemma update_stage_inv:
  assumes "loop_inv u w" and "update_stage ex t h w = Inr (v, w')"
  shows "loop_inv u w'"
  using assms by (auto simp: loop_inv_def update_stage_def stage_unfold tx_of_Some_iff split: option.splits)

lemma rng_init_stage_frame:
  assumes "rng_init_stage ex w = Inr (t, w')"
  shows "base_oracledid w' = base_oracledid w" "curr_oracle_updated_tx w' = curr_oracle_updated_tx w"
  using assms by (auto simp: rng_init_stage_def stage_unfold split: option.splits)

lemma generate_action_inv:
  assumes "loop_inv u w" and "generate_action ex h inp w = Inr (inp', w')"
  shows "loop_inv u w'"
proof -
  from assms(2) obtain l w1 t w2 where
    "inp = l # inp'" and
    w1: "w1 = snd (call_rng ex (UpdateConfig ''rngOutputLen'' (parse_int l)) w)" and
    i: "rng_init_stage ex w1 = Inr (t, w2)" and
    u: "update_stage ex t h w2 = Inr ((), w')"
    by (auto simp: generate_action_def Let_def split: list.splits sum.splits prod.splits)
  from assms(1) w1 have "loop_inv u w1" by (simp add: loop_inv_def call_rng_eq)
  with i have "loop_inv u w2" by (simp add: loop_inv_def rng_init_stage_frame)
  then show ?thesis using u by (rule update_stage_inv)
qed

lemma loop_body_inv:
  assumes "loop_inv u w" and "loop_body ex inp w = Inr (inp', w')"
  shows "loop_inv u w'"
proof -
  from assms(1) obtain h where h: "curr_oracle_updated_tx w = Some h" "h \<noteq> []"
    by (auto simp: loop_inv_def js_truthy_iff)
  from assms(2) obtain a where inp: "inp = a # tl inp"
    by (cases inp) (auto simp: loop_body_def)
  show ?thesis
  proof (cases "parse_int a = Some 1")
    case True
    with assms(2) h inp have "generate_action ex h (tl inp) w = Inr (inp', w')"
      by (metis loop_body_dispatch)
    with assms(1) show ?thesis by (rule generate_action_inv)
  next
    case False
    with assms h inp show ?thesis
      by (subst (asm) inp, subst (asm) loop_body_dispatch) (auto simp: loop_inv_def)
  qed
qed

end
