(* ===== verification/Protocol.thy ===== *)
theory Protocol
  imports Cli
begin

text \<open>
  The abstract specification of the orchestration (spec, sections 4.3 and 4.4): the
  lifecycle \<open>Unstarted \<rightarrow> Minted \<rightarrow> Initialized \<rightarrow> Registered\<close>, then the
  generate sub-sequence \<open>Registered \<rightarrow> Reconfigured \<rightarrow> Generating \<rightarrow> Registered\<close>
  and the read-only query. Each phase carries the dependency values the next call must
  be given: the identity unit and the init transaction, or the current head.
  \<open>proto_step\<close> is the specification as an inductive relation over executor calls
  and their results; a call whose result carries no transaction id halts the process
  (section 7). \<open>proto_run\<close> lifts it to event traces, ignoring waits and console
  lines. \<open>proto_call\<close> is the same relation as an executable monitor, and the theory
  proves the two agree. The refinement theorem \<open>main_refines_protocol\<close> in the root
  theory states that every trace of the script is a run of the specification.
\<close>

datatype phase =
    Unstarted
  | Minted js_string
  | Initialized js_string string
  | Registered js_string string
  | Reconfigured js_string string
  | Generating js_string string string
  | Halted

inductive proto_step :: "phase \<Rightarrow> rng_call \<Rightarrow> exec_result \<Rightarrow> phase \<Rightarrow> bool" where
  mint: "tx_of r = Some t \<Longrightarrow>
           proto_step Unstarted (OracleMint n) r (Minted (Option.bind (data r) oracleDIDUnit))"
| mint_fail: "tx_of r = None \<Longrightarrow> proto_step Unstarted (OracleMint n) r Halted"
| init: "tx_of r = Some t \<Longrightarrow> proto_step (Minted u) Init r (Initialized u t)"
| init_fail: "tx_of r = None \<Longrightarrow> proto_step (Minted u) Init r Halted"
| register: "tx_of r = Some t' \<Longrightarrow>
               proto_step (Initialized u t) (OracleRegister t u) r (Registered u t')"
| register_fail: "tx_of r = None \<Longrightarrow> proto_step (Initialized u t) (OracleRegister t u) r Halted"
| reconfigure: "proto_step (Registered u h) (UpdateConfig k v) r (Reconfigured u h)"
| gen_init: "tx_of r = Some t \<Longrightarrow> proto_step (Reconfigured u h) Init r (Generating u h t)"
| gen_init_fail: "tx_of r = None \<Longrightarrow> proto_step (Reconfigured u h) Init r Halted"
| update: "tx_of r = Some t' \<Longrightarrow>
             proto_step (Generating u h t) (OracleUpdate t u h) r (Registered u t')"
| update_fail: "tx_of r = None \<Longrightarrow> proto_step (Generating u h t) (OracleUpdate t u h) r Halted"
| query: "proto_step (Registered u h) (OracleQuery h) r (Registered u h)"

inductive proto_run :: "phase \<Rightarrow> event list \<Rightarrow> phase \<Rightarrow> bool" where
  nil: "proto_run p [] p"
| call: "proto_step p c r q \<Longrightarrow> proto_run q es p' \<Longrightarrow> proto_run p (Called c r # es) p'"
| wait: "proto_run p es p' \<Longrightarrow> proto_run p (Slept ms # es) p'"
| log: "proto_run p es p' \<Longrightarrow> proto_run p (Logged s # es) p'"

text \<open>The phase after a submitting call: its transaction id, or a halt.\<close>

definition after_tx :: "exec_result \<Rightarrow> (string \<Rightarrow> phase) \<Rightarrow> phase" where
  "after_tx r k = (case tx_of r of Some t \<Rightarrow> k t | None \<Rightarrow> Halted)"

fun proto_call :: "phase \<Rightarrow> rng_call \<Rightarrow> exec_result \<Rightarrow> phase option" where
  "proto_call Unstarted (OracleMint n) r =
     Some (after_tx r (\<lambda>_. Minted (Option.bind (data r) oracleDIDUnit)))"
| "proto_call (Minted u) Init r = Some (after_tx r (Initialized u))"
| "proto_call (Initialized u t) (OracleRegister t' u') r =
     (if t' = t \<and> u' = u then Some (after_tx r (Registered u)) else None)"
| "proto_call (Registered u h) (UpdateConfig k v) r = Some (Reconfigured u h)"
| "proto_call (Registered u h) (OracleQuery h') r =
     (if h' = h then Some (Registered u h) else None)"
| "proto_call (Reconfigured u h) Init r = Some (after_tx r (Generating u h))"
| "proto_call (Generating u h t) (OracleUpdate t' u' h') r =
     (if t' = t \<and> u' = u \<and> h' = h then Some (after_tx r (Registered u)) else None)"
| "proto_call _ _ _ = None"

fun proto_event :: "phase \<Rightarrow> event \<Rightarrow> phase option" where
  "proto_event p (Called c r) = proto_call p c r"
| "proto_event p (Slept ms) = Some p"
| "proto_event p (Logged s) = Some p"

text \<open>
  The abstraction of the script's module state in the loop: \<open>BASE_ORACLEDID.unit\<close>
  and \<open>CURR_ORACLE_UPDATED_TX\<close> are the unit and the head of \<open>Registered\<close>.
\<close>

definition abs_world :: "'x world \<Rightarrow> phase" where
  "abs_world w =
     (case (base_oracledid w, curr_oracle_updated_tx w) of
        (Some d, Some h) \<Rightarrow> Registered (unit d) h
      | _ \<Rightarrow> Unstarted)"

fun halt_world :: "'x halt \<Rightarrow> 'x world" where
  "halt_world (Crashed e w) = w"
| "halt_world (Awaiting w) = w"

fun abs_halt :: "'x halt \<Rightarrow> phase" where
  "abs_halt (Crashed e w) = Halted"
| "abs_halt (Awaiting w) = abs_world w"

text \<open>The executor calls of a trace, in order.\<close>

fun calls_of :: "event list \<Rightarrow> rng_call list" where
  "calls_of [] = []"
| "calls_of (Called c r # es) = c # calls_of es"
| "calls_of (Slept ms # es) = calls_of es"
| "calls_of (Logged s # es) = calls_of es"

text \<open>
  The one assumption on the executor the refinement needs: \<open>init\<close> never answers a
  present payload with an empty \<open>txHash\<close>. The script checks only \<open>data\<close> after
  \<open>init\<close> (lines 125 and 187), so such an answer would be carried on as a transaction id.
\<close>

definition init_contract :: "'x executor \<Rightarrow> bool" where
  "init_contract ex \<longleftrightarrow> (\<forall>x. Option.bind (data (fst (ex Init x))) txHash \<noteq> Some [])"

text \<open>
  The confirmation discipline (spec, sections 4.2 and 5): after a call that submits a
  transaction, no executor call may start before a wait of at least
  \<open>confirmation_ms\<close> has elapsed. The monitor's state is whether a submitted
  transaction is still unconfirmed; a call in that state is a violation.
\<close>

fun wait_event :: "bool \<Rightarrow> event \<Rightarrow> bool option" where
  "wait_event pending (Called c r) = (if pending then None else Some (submits c))"
| "wait_event pending (Slept ms) = Some (pending \<and> ms < confirmation_ms)"
| "wait_event pending (Logged s) = Some pending"

definition confirmed_before_next :: "event list \<Rightarrow> bool" where
  "confirmed_before_next es \<longleftrightarrow> run_monitor wait_event False es \<noteq> None"

text \<open>
  How a halt of the script stands with the discipline: while it waits for the operator
  nothing is left unconfirmed; a crash may leave its last call unconfirmed, but no call
  ever started early.
\<close>

fun halt_waits :: "'x halt \<Rightarrow> bool" where
  "halt_waits (Awaiting w) \<longleftrightarrow> run_monitor wait_event False (events w) = Some False"
| "halt_waits (Crashed e w) \<longleftrightarrow> confirmed_before_next (events w)"

text \<open>
  An executor that always succeeds: every submitting call answers with a transaction
  id. Against such an executor the script must never stop by itself.
\<close>

definition exec_ok :: "'x executor \<Rightarrow> bool" where
  "exec_ok ex \<longleftrightarrow> (\<forall>c x. submits c \<longrightarrow> tx_of (fst (ex c x)) \<noteq> None)"

text \<open>
  The head a trace establishes: the transaction id returned by its last register or
  update call (spec, section 8, single-head invariant).
\<close>

fun head_event :: "string option \<Rightarrow> event \<Rightarrow> string option option" where
  "head_event h (Called (OracleRegister t u) r) = Some (tx_of r)"
| "head_event h (Called (OracleUpdate t u h') r) = Some (tx_of r)"
| "head_event h e = Some h"

text \<open>
  The values each call is given (spec, section 8, sequencing invariant and immutability
  of the identity), checked on the raw values the executor returned, with no
  assumption on the executor: every register and update call is given the unit the
  mint call returned and the raw \<open>txHash\<close> of the init call just before it; every
  update and query call is given the id the last register or update returned.
  \<open>dep_init\<close> is consumed by the call that uses it.
\<close>

record dep_state =
  dep_unit :: "js_string option"
  dep_init :: "string option"
  dep_head :: "string option"

fun dep_call :: "dep_state \<Rightarrow> rng_call \<Rightarrow> exec_result \<Rightarrow> dep_state option" where
  "dep_call s (OracleMint n) r = Some (s\<lparr>dep_unit := Some (Option.bind (data r) oracleDIDUnit)\<rparr>)"
| "dep_call s Init r = Some (s\<lparr>dep_init := Option.bind (data r) txHash\<rparr>)"
| "dep_call s (OracleRegister t u) r =
     (if dep_init s = Some t \<and> dep_unit s = Some u
      then Some (s\<lparr>dep_init := None, dep_head := tx_of r\<rparr>) else None)"
| "dep_call s (OracleUpdate t u h) r =
     (if dep_init s = Some t \<and> dep_unit s = Some u \<and> dep_head s = Some h
      then Some (s\<lparr>dep_init := None, dep_head := tx_of r\<rparr>) else None)"
| "dep_call s (OracleQuery h) r = (if dep_head s = Some h then Some s else None)"
| "dep_call s (UpdateConfig k v) r = Some s"

fun dep_event :: "dep_state \<Rightarrow> event \<Rightarrow> dep_state option" where
  "dep_event s (Called c r) = dep_call s c r"
| "dep_event s (Slept ms) = Some s"
| "dep_event s (Logged l) = Some s"

definition dep_start :: dep_state where
  "dep_start = \<lparr>dep_unit = None, dep_init = None, dep_head = None\<rparr>"

definition dep_loop :: "js_string \<Rightarrow> 'x world \<Rightarrow> dep_state" where
  "dep_loop u w = \<lparr>dep_unit = Some u, dep_init = None, dep_head = curr_oracle_updated_tx w\<rparr>"

subsection \<open>The action loop as an invariant rule\<close>

text \<open>
  Every iteration that does not halt consumes an answer, so a property of the loop
  follows from a predicate on the answers left and the world that each iteration
  preserves and that gives the property at the iteration that halts.
\<close>

lemma loop_body_shorter: "loop_body ex inp w = Inr (inp', w') \<Longrightarrow> length inp' < length inp"
  by (auto simp: loop_body_def generate_action_def Let_def
           split: list.splits option.splits if_splits sum.splits prod.splits)

lemma action_loop_rule:
  assumes "P inp w"
    and step: "\<And>inp w inp' w'. P inp w \<Longrightarrow> loop_body ex inp w = Inr (inp', w') \<Longrightarrow> P inp' w'"
    and halt: "\<And>inp w h. P inp w \<Longrightarrow> loop_body ex inp w = Inl h \<Longrightarrow> Q h"
  shows "Q (action_loop ex inp w)"
  using assms(1)
proof (induction "length inp" arbitrary: inp w rule: less_induct)
  case less
  show ?case
  proof (cases "loop_body ex inp w")
    case (Inl h)
    with halt[OF less.prems Inl] show ?thesis
      by (simp add: action_loop.simps[of ex inp w])
  next
    case (Inr p)
    then obtain inp' w' where p: "loop_body ex inp w = Inr (inp', w')"
      by (cases p) auto
    from less.hyps[OF loop_body_shorter[OF p] step[OF less.prems p]] p show ?thesis
      by (simp add: action_loop.simps[of ex inp w])
  qed
qed

subsection \<open>The relation and the monitor agree\<close>

lemma proto_step_call: "proto_step p c r q \<Longrightarrow> proto_call p c r = Some q"
  by (induction rule: proto_step.induct) (simp_all add: after_tx_def)

lemma proto_call_step: "proto_call p c r = Some q \<Longrightarrow> proto_step p c r q"
  by (induction p c r rule: proto_call.induct)
     (auto simp: after_tx_def intro: proto_step.intros split: option.splits if_splits)

lemma proto_step_iff: "proto_step p c r q \<longleftrightarrow> proto_call p c r = Some q"
  using proto_step_call proto_call_step by blast

lemma proto_run_monitor: "proto_run p es q \<Longrightarrow> run_monitor proto_event p es = Some q"
  by (induction rule: proto_run.induct) (simp_all add: proto_step_iff)

lemma monitor_proto_run: "run_monitor proto_event p es = Some q \<Longrightarrow> proto_run p es q"
proof (induction es arbitrary: p)
  case Nil
  then show ?case by (simp add: proto_run.nil)
next
  case (Cons e es)
  then show ?case
    by (cases e) (auto simp: proto_step_iff intro: proto_run.intros split: option.splits)
qed

lemma proto_run_iff: "proto_run p es q \<longleftrightarrow> run_monitor proto_event p es = Some q"
  using proto_run_monitor monitor_proto_run by blast

subsection \<open>The script refines the protocol\<close>

lemma abs_world_loop_inv:
  "loop_inv u w \<Longrightarrow> curr_oracle_updated_tx w = Some h \<Longrightarrow> abs_world w = Registered u h"
  by (simp add: loop_inv_def abs_world_def)

lemma rng_init_stage_contract:
  assumes "init_contract ex"
  shows rng_init_stage_Inr_tx: "rng_init_stage ex w = Inr (t, w') \<Longrightarrow>
           tx_of (fst (ex Init (rng w))) = Some t \<and> w' = sleep confirmation_ms (snd (call_rng ex Init w))"
    and rng_init_stage_Inl_tx: "rng_init_stage ex w = Inl (e, w') \<Longrightarrow>
           tx_of (fst (ex Init (rng w))) = None \<and> w' = snd (call_rng ex Init w)"
  using assms[unfolded init_contract_def, rule_format, of "rng w"]
  by (auto simp: rng_init_stage_def call_rng_eq tx_of_def split: option.splits)

lemma bootstrap_proto:
  assumes c: "init_contract ex" and w0: "run_monitor proto_event p0 (events w0) = Some Unstarted"
  shows "bootstrap ex name w0 = Inl (e, w) \<Longrightarrow> run_monitor proto_event p0 (events w) = Some Halted"
    and "bootstrap ex name w0 = Inr (v, w) \<Longrightarrow>
           run_monitor proto_event p0 (events w) = Some (abs_world w) \<and> (\<exists>u. loop_inv u w)"
  using w0
  by (auto simp: bootstrap_def mint_stage_def register_stage_def stage_unfold after_tx_def
                 abs_world_def loop_inv_def
           split: sum.splits prod.splits option.splits if_splits
           dest!: rng_init_stage_Inr_tx[OF c] rng_init_stage_Inl_tx[OF c])

lemma generate_action_proto:
  assumes c: "init_contract ex" and inv: "loop_inv u w" and h: "curr_oracle_updated_tx w = Some h"
    and run: "run_monitor proto_event p0 (events w) = Some (Registered u h)"
  shows "generate_action ex h inp w = Inr (inp', w') \<Longrightarrow>
           run_monitor proto_event p0 (events w') = Some (abs_world w')"
    and "generate_action ex h inp w = Inl hl \<Longrightarrow>
           run_monitor proto_event p0 (events (halt_world hl)) = Some (abs_halt hl)"
  using inv h run
  by (auto simp: generate_action_def update_stage_def stage_unfold after_tx_def
                 abs_world_def loop_inv_def
           split: list.splits sum.splits prod.splits option.splits if_splits
           dest!: rng_init_stage_Inr_tx[OF c] rng_init_stage_Inl_tx[OF c])

lemma query_action_proto:
  assumes "run_monitor proto_event p0 (events w) = Some (Registered u h)"
  shows "run_monitor proto_event p0 (events (query_action ex h w)) = Some (Registered u h)"
  using assms by (simp add: query_action_def stage_unfold)

lemma loop_body_proto:
  assumes c: "init_contract ex" and inv: "loop_inv u w"
    and run: "run_monitor proto_event p0 (events w) = Some (abs_world w)"
  shows "loop_body ex inp w = Inr (inp', w') \<Longrightarrow>
           run_monitor proto_event p0 (events w') = Some (abs_world w')"
    and "loop_body ex inp w = Inl hl \<Longrightarrow>
           run_monitor proto_event p0 (events (halt_world hl)) = Some (abs_halt hl)"
proof -
  from inv obtain h where h: "curr_oracle_updated_tx w = Some h" "h \<noteq> []"
    by (auto simp: loop_inv_def js_truthy_iff)
  with inv have aw: "abs_world w = Registered u h"
    by (simp add: abs_world_loop_inv)
  with run have run': "run_monitor proto_event p0 (events w) = Some (Registered u h)"
    by simp
  note gen = generate_action_proto[OF c inv h(1) run']
  have q: "abs_world (query_action ex h w) = abs_world w"
    by (simp add: abs_world_def)
  show "loop_body ex inp w = Inr (inp', w') \<Longrightarrow>
          run_monitor proto_event p0 (events w') = Some (abs_world w')"
    using run' q aw
    by (cases inp) (auto simp: loop_body_Nil loop_body_dispatch[OF h] query_action_proto gen(1)
                         split: if_splits)
  show "loop_body ex inp w = Inl hl \<Longrightarrow>
          run_monitor proto_event p0 (events (halt_world hl)) = Some (abs_halt hl)"
    using run
    by (cases inp) (auto simp: loop_body_Nil loop_body_dispatch[OF h] gen(2) split: if_splits)
qed

lemma action_loop_proto:
  "init_contract ex \<Longrightarrow> loop_inv u w \<Longrightarrow>
   run_monitor proto_event p0 (events w) = Some (abs_world w) \<Longrightarrow>
   run_monitor proto_event p0 (events (halt_world (action_loop ex inp w))) =
     Some (abs_halt (action_loop ex inp w))"
  by (rule action_loop_rule
        [where P = "\<lambda>_ w. loop_inv u w \<and> run_monitor proto_event p0 (events w) = Some (abs_world w)"
           and Q = "\<lambda>h. run_monitor proto_event p0 (events (halt_world h)) = Some (abs_halt h)"])
     (auto intro: loop_body_inv loop_body_proto)

subsection \<open>The script waits for every confirmation\<close>

lemma bootstrap_waits:
  assumes "run_monitor wait_event False (events w0) = Some False"
  shows "bootstrap ex name w0 = Inl (e, w) \<Longrightarrow> confirmed_before_next (events w)"
    and "bootstrap ex name w0 = Inr (v, w) \<Longrightarrow> run_monitor wait_event False (events w) = Some False"
  using assms
  by (auto simp: bootstrap_def mint_stage_def register_stage_def stage_unfold
                 confirmed_before_next_def confirmation_ms_def
           split: sum.splits prod.splits option.splits if_splits
           dest!: rng_init_stage_Inr rng_init_stage_Inl)

lemma generate_action_waits:
  assumes "run_monitor wait_event False (events w) = Some False"
  shows "generate_action ex h inp w = Inr (inp', w') \<Longrightarrow>
           run_monitor wait_event False (events w') = Some False"
    and "generate_action ex h inp w = Inl hl \<Longrightarrow> halt_waits hl"
  using assms
  by (auto simp: generate_action_def update_stage_def stage_unfold
                 confirmed_before_next_def confirmation_ms_def
           split: list.splits sum.splits prod.splits option.splits if_splits
           dest!: rng_init_stage_Inr rng_init_stage_Inl)

lemma query_action_waits:
  "run_monitor wait_event False (events w) = Some False \<Longrightarrow>
   run_monitor wait_event False (events (query_action ex h w)) = Some False"
  by (simp add: query_action_def stage_unfold)

lemma loop_body_waits:
  assumes "run_monitor wait_event False (events w) = Some False"
  shows "loop_body ex inp w = Inr (inp', w') \<Longrightarrow>
           run_monitor wait_event False (events w') = Some False"
    and "loop_body ex inp w = Inl hl \<Longrightarrow> halt_waits hl"
  using assms generate_action_waits[OF assms] query_action_waits
  by (auto simp: loop_body_def Let_def split: list.splits option.splits if_splits sum.splits prod.splits)

lemma action_loop_waits:
  "run_monitor wait_event False (events w) = Some False \<Longrightarrow> halt_waits (action_loop ex inp w)"
  by (rule action_loop_rule[where P = "\<lambda>_ w. run_monitor wait_event False (events w) = Some False"])
     (auto intro: loop_body_waits)

subsection \<open>Against a succeeding executor the script never stops\<close>

lemma exec_ok_tx:
  assumes "exec_ok ex" and "submits c"
  obtains p t where "data (fst (ex c x)) = Some p" "txHash p = Some t" "t \<noteq> []"
    "tx_of (fst (ex c x)) = Some t"
proof -
  from assms obtain t where "tx_of (fst (ex c x)) = Some t"
    by (auto simp: exec_ok_def)
  then show ?thesis using that by (auto simp: tx_of_Some_iff)
qed

lemma rng_init_stage_ok:
  assumes "exec_ok ex"
  obtains t w' where "rng_init_stage ex w = Inr (t, w')"
    "base_oracledid w' = base_oracledid w" "curr_oracle_updated_tx w' = curr_oracle_updated_tx w"
proof -
  obtain p t where "data (fst (ex Init (rng w))) = Some p" "txHash p = Some t"
    by (rule exec_ok_tx[OF assms, of Init "rng w"]) auto
  then show ?thesis
    using that by (simp add: rng_init_stage_def stage_unfold)
qed

lemma bootstrap_ok:
  assumes "exec_ok ex"
  obtains w u where "bootstrap ex name w0 = Inr ((), w)" "loop_inv u w"
proof -
  let ?w1 = "log_line ''Creating Oracle DID for you'' w0"
  obtain t1 where m: "tx_of (fst (ex (OracleMint name) (rng ?w1))) = Some t1"
    by (rule exec_ok_tx[OF assms, of "OracleMint name" "rng ?w1"]) auto
  then obtain w2 u where w2: "mint_stage ex name ?w1 = Inr ((), w2)"
    "base_oracledid w2 = Some \<lparr>unit = u, registered = False\<rparr>"
    by (simp add: mint_stage_def stage_unfold)
  let ?w3 = "log_line ''To register the Oracle DID, We need initial RNG transaction to pass the data with it'' w2"
  obtain t w4 where i: "rng_init_stage ex ?w3 = Inr (t, w4)" "base_oracledid w4 = base_oracledid ?w3"
    using rng_init_stage_ok[OF assms, of ?w3] by blast
  obtain t2 where "tx_of (fst (ex (OracleRegister t u) (rng w4))) = Some t2"
    by (rule exec_ok_tx[OF assms, of "OracleRegister t u" "rng w4"]) auto
  with i w2 obtain w where "register_stage ex t w4 = Inr ((), w)" "loop_inv u w"
    by (auto simp: register_stage_def stage_unfold loop_inv_def)
  with w2(1) i(1) show ?thesis
    using that by (simp add: bootstrap_def)
qed

lemma generate_action_ok:
  assumes "exec_ok ex" and "loop_inv u w"
  shows "(\<exists>w'. generate_action ex h inp w = Inl (Awaiting w')) \<or>
         (\<exists>inp' w'. generate_action ex h inp w = Inr (inp', w'))"
proof (cases inp)
  case Nil
  then show ?thesis by (simp add: generate_action_def)
next
  case (Cons l inp')
  let ?w1 = "snd (call_rng ex (UpdateConfig ''rngOutputLen'' (parse_int l)) w)"
  obtain t w2 where i: "rng_init_stage ex ?w1 = Inr (t, w2)" "base_oracledid w2 = base_oracledid ?w1"
    using rng_init_stage_ok[OF assms(1), of ?w1] by blast
  obtain t2 where "tx_of (fst (ex (OracleUpdate t u h) (rng w2))) = Some t2"
    by (rule exec_ok_tx[OF assms(1), of "OracleUpdate t u h" "rng w2"]) auto
  with i assms(2) Cons show ?thesis
    by (auto simp: generate_action_def update_stage_def stage_unfold loop_inv_def)
qed

lemma loop_body_ok:
  assumes "exec_ok ex" and "loop_inv u w"
  shows "(\<exists>w'. loop_body ex inp w = Inl (Awaiting w')) \<or>
         (\<exists>inp' w'. loop_body ex inp w = Inr (inp', w'))"
proof (cases inp)
  case Nil
  then show ?thesis by (simp add: loop_body_Nil)
next
  case (Cons a inp1)
  from assms(2) obtain h where h: "curr_oracle_updated_tx w = Some h" "h \<noteq> []"
    by (auto simp: loop_inv_def js_truthy_iff)
  show ?thesis
    using generate_action_ok[OF assms, of h inp1]
    by (simp add: Cons loop_body_dispatch[OF h])
qed

lemma action_loop_ok:
  assumes "exec_ok ex" and "loop_inv u w"
  shows "\<exists>w'. action_loop ex inp w = Awaiting w'"
  using assms(2)
proof (rule action_loop_rule[where P = "\<lambda>_ w. loop_inv u w" and Q = "\<lambda>h. \<exists>w'. h = Awaiting w'"])
  fix inp w inp' w'
  assume "loop_inv u w" and "loop_body ex inp w = Inr (inp', w')"
  then show "loop_inv u w'" by (rule loop_body_inv)
next
  fix inp w h
  assume "loop_inv u w" and "loop_body ex inp w = Inl h"
  with loop_body_ok[OF assms(1), of u w inp] show "\<exists>w'. h = Awaiting w'" by auto
qed

subsection \<open>The loop keeps the registered identity\<close>

lemma generate_action_halt_inv:
  "loop_inv u w \<Longrightarrow> generate_action ex h inp w = Inl hl \<Longrightarrow> loop_inv u (halt_world hl)"
  by (auto simp: generate_action_def update_stage_def stage_unfold loop_inv_def
           split: list.splits sum.splits prod.splits option.splits if_splits
           dest!: rng_init_stage_Inr rng_init_stage_Inl)

lemma loop_body_halt_inv:
  assumes "loop_inv u w" and "loop_body ex inp w = Inl hl"
  shows "loop_inv u (halt_world hl)"
proof -
  from assms(1) obtain h where h: "curr_oracle_updated_tx w = Some h" "h \<noteq> []"
    by (auto simp: loop_inv_def js_truthy_iff)
  show ?thesis
    using assms generate_action_halt_inv[OF assms(1), of ex h]
    by (cases inp) (auto simp: loop_body_Nil loop_body_dispatch[OF h] split: if_splits)
qed

subsection \<open>The head of the trace is the head of the script\<close>

lemma bootstrap_head:
  assumes "run_monitor head_event None (events w0) = Some None"
  shows "bootstrap ex name w0 = Inr (v, w) \<Longrightarrow>
           run_monitor head_event None (events w) = Some (curr_oracle_updated_tx w)"
  using assms
  by (auto simp: bootstrap_def mint_stage_def register_stage_def stage_unfold
           split: sum.splits prod.splits option.splits if_splits
           dest!: rng_init_stage_Inr)

lemma loop_body_head:
  assumes "run_monitor head_event None (events w) = Some (curr_oracle_updated_tx w)"
  shows "loop_body ex inp w = Inr (inp', w') \<Longrightarrow>
           run_monitor head_event None (events w') = Some (curr_oracle_updated_tx w')"
    and "loop_body ex inp w = Inl (Awaiting w') \<Longrightarrow>
           run_monitor head_event None (events w') = Some (curr_oracle_updated_tx w')"
  using assms
  by (auto simp: loop_body_def generate_action_def update_stage_def query_action_def stage_unfold Let_def
           split: list.splits sum.splits prod.splits option.splits if_splits
           dest!: rng_init_stage_Inr)

lemma action_loop_head:
  assumes "run_monitor head_event None (events w) = Some (curr_oracle_updated_tx w)"
    and "action_loop ex inp w = Awaiting w'"
  shows "run_monitor head_event None (events w') = Some (curr_oracle_updated_tx w')"
proof -
  have "\<forall>w'. action_loop ex inp w = Awaiting w' \<longrightarrow>
          run_monitor head_event None (events w') = Some (curr_oracle_updated_tx w')"
    using assms(1)
    by (rule action_loop_rule
          [where P = "\<lambda>_ w. run_monitor head_event None (events w) = Some (curr_oracle_updated_tx w)"])
       (auto intro: loop_body_head)
  with assms(2) show ?thesis by blast
qed

subsection \<open>The unit of \<open>BASE_ORACLEDID\<close> is never read from \<open>null\<close>\<close>

lemma generate_action_no_null:
  "loop_inv u w \<Longrightarrow> generate_action ex h inp w = Inl (Crashed e w') \<Longrightarrow>
   e \<noteq> TypeError ''Cannot read properties of null (reading unit)''"
  by (auto simp: generate_action_def update_stage_def stage_unfold loop_inv_def rng_init_stage_def
           split: list.splits sum.splits prod.splits option.splits if_splits)

lemma loop_body_no_null:
  assumes "loop_inv u w" and "loop_body ex inp w = Inl (Crashed e w')"
  shows "e \<noteq> TypeError ''Cannot read properties of null (reading unit)''"
proof -
  from assms(1) obtain h where h: "curr_oracle_updated_tx w = Some h" "h \<noteq> []"
    by (auto simp: loop_inv_def js_truthy_iff)
  show ?thesis
    using assms generate_action_no_null[OF assms(1), of ex h]
    by (cases inp) (auto simp: loop_body_Nil loop_body_dispatch[OF h] split: if_splits)
qed

lemma action_loop_no_null:
  assumes "loop_inv u w" and "action_loop ex inp w = Crashed e w'"
  shows "e \<noteq> TypeError ''Cannot read properties of null (reading unit)''"
proof -
  have "\<forall>e w'. action_loop ex inp w = Crashed e w' \<longrightarrow>
          e \<noteq> TypeError ''Cannot read properties of null (reading unit)''"
    using assms(1)
    by (rule action_loop_rule[where P = "\<lambda>_ w. loop_inv u w"])
       (auto intro: loop_body_inv dest: loop_body_no_null)
  with assms(2) show ?thesis by blast
qed

lemma bootstrap_no_null:
  "base_oracledid w0 = None \<Longrightarrow> bootstrap ex name w0 = Inl (e, w) \<Longrightarrow>
   e \<noteq> TypeError ''Cannot read properties of null (reading unit)''"
  by (auto simp: bootstrap_def mint_stage_def register_stage_def rng_init_stage_def stage_unfold
           split: sum.splits prod.splits option.splits if_splits)

lemma bootstrap_inv: "bootstrap ex name w0 = Inr (v, w) \<Longrightarrow> \<exists>u. loop_inv u w"
  by (auto simp: bootstrap_def mint_stage_def register_stage_def stage_unfold loop_inv_def
           split: sum.splits prod.splits option.splits if_splits dest!: rng_init_stage_Inr)

subsection \<open>Every call is given the values of the calls before it\<close>

lemma bootstrap_deps:
  assumes "run_monitor dep_event p0 (events w0) = Some dep_start"
  shows "bootstrap ex name w0 = Inl (e, w) \<Longrightarrow> run_monitor dep_event p0 (events w) \<noteq> None"
    and "bootstrap ex name w0 = Inr (v, w) \<Longrightarrow>
           \<exists>u. loop_inv u w \<and> run_monitor dep_event p0 (events w) = Some (dep_loop u w)"
  using assms
  by (auto simp: bootstrap_def mint_stage_def register_stage_def stage_unfold dep_start_def
                 dep_loop_def loop_inv_def
           split: sum.splits prod.splits option.splits if_splits
           dest!: rng_init_stage_Inr rng_init_stage_Inl)

lemma generate_action_deps:
  assumes "loop_inv u w" "curr_oracle_updated_tx w = Some h"
    and "run_monitor dep_event p0 (events w) = Some (dep_loop u w)"
  shows "generate_action ex h inp w = Inr (inp', w') \<Longrightarrow>
           run_monitor dep_event p0 (events w') = Some (dep_loop u w')"
    and "generate_action ex h inp w = Inl hl \<Longrightarrow> run_monitor dep_event p0 (events (halt_world hl)) \<noteq> None"
  using assms
  by (auto simp: generate_action_def update_stage_def stage_unfold dep_loop_def loop_inv_def
           split: list.splits sum.splits prod.splits option.splits if_splits
           dest!: rng_init_stage_Inr rng_init_stage_Inl)

lemma loop_body_deps:
  assumes inv: "loop_inv u w" and run: "run_monitor dep_event p0 (events w) = Some (dep_loop u w)"
  shows "loop_body ex inp w = Inr (inp', w') \<Longrightarrow>
           run_monitor dep_event p0 (events w') = Some (dep_loop u w')"
    and "loop_body ex inp w = Inl hl \<Longrightarrow> run_monitor dep_event p0 (events (halt_world hl)) \<noteq> None"
proof -
  from inv obtain h where h: "curr_oracle_updated_tx w = Some h" "h \<noteq> []"
    by (auto simp: loop_inv_def js_truthy_iff)
  note gen = generate_action_deps[OF inv h(1) run]
  have q: "run_monitor dep_event p0 (events (query_action ex h w)) = Some (dep_loop u (query_action ex h w))"
    using run h by (simp add: query_action_def stage_unfold dep_loop_def)
  show "loop_body ex inp w = Inr (inp', w') \<Longrightarrow>
          run_monitor dep_event p0 (events w') = Some (dep_loop u w')"
    using run q by (cases inp) (auto simp: loop_body_Nil loop_body_dispatch[OF h] gen(1) split: if_splits)
  show "loop_body ex inp w = Inl hl \<Longrightarrow> run_monitor dep_event p0 (events (halt_world hl)) \<noteq> None"
    using run by (cases inp) (auto simp: loop_body_Nil loop_body_dispatch[OF h] split: if_splits dest: gen(2))
qed

lemma action_loop_deps:
  "loop_inv u w \<Longrightarrow> run_monitor dep_event p0 (events w) = Some (dep_loop u w) \<Longrightarrow>
   run_monitor dep_event p0 (events (halt_world (action_loop ex inp w))) \<noteq> None"
  by (rule action_loop_rule
        [where P = "\<lambda>_ w. loop_inv u w \<and> run_monitor dep_event p0 (events w) = Some (dep_loop u w)"
           and Q = "\<lambda>h. run_monitor dep_event p0 (events (halt_world h)) \<noteq> None"])
     (auto intro: loop_body_inv loop_body_deps(1) dest: loop_body_deps(2))

end
