(* ===== verification/Session.thy ===== *)
theory Session
  imports Protocol "HOL-Library.Sublist"
begin

text \<open>
  The operator session (the ParameterSession of the spec): the script reads every answer
  from one stream, in the order of its prompts. The eight questions of \<open>baseParams\<close>
  (lines 23--61) come first, then the Oracle DID name (lines 87--93, after the log line
  of line 85), then the answers of the action loop. \<open>session\<close> composes the prompts
  with \<open>main\<close>; \<open>AtPrompt k\<close> is the script blocked at question \<open>k\<close> of the first
  prompt, before anything else has happened. The theory proves how the trace grows
  within a run, the trace of the bootstrap up to the registration and of a Generate
  action up to its init, that an iteration reads the choice only through
  \<open>parseInt\<close>, the cost of a session in executor calls, confirmation time and mint
  calls, and that every output length handed to \<open>updateConfig\<close> is a double.
\<close>

fun base_params_of :: "string list \<Rightarrow> base_params option" where
  "base_params_of [net, key, api, ogm, ocbor, rcbor, seed, len] =
     Some \<lparr>bp_network = net, bp_blockfrostApiKey = key, bp_rngAPIURL = api, bp_ogmiosURL = ogm,
           bp_oracleCBOR = ocbor, bp_rngCBOR = rcbor, bp_walletSeed = seed, bp_rngOutputLen = len\<rparr>"
| "base_params_of _ = None"

datatype 'x session = AtPrompt nat | Running "'x halt"

definition session :: "'x executor \<Rightarrow> (rng_config \<Rightarrow> 'x) \<Rightarrow> string list \<Rightarrow> 'x session" where
  "session ex new_rng ans =
     (case base_params_of (take 8 ans) of
        None \<Rightarrow> AtPrompt (length ans)
      | Some bp \<Rightarrow>
          (case drop 8 ans of
             [] \<Rightarrow> Running (Awaiting (log_line ''Creating Oracle DID for you'' (initial_world new_rng bp)))
           | name # inp \<Rightarrow> Running (main ex new_rng bp name inp)))"

fun session_events :: "'x session \<Rightarrow> event list" where
  "session_events (AtPrompt k) = []"
| "session_events (Running h) = events (halt_world h)"

text \<open>The waits of a trace, in milliseconds, and whether a call mints.\<close>

fun slept_of :: "event list \<Rightarrow> nat list" where
  "slept_of [] = []"
| "slept_of (Slept ms # es) = ms # slept_of es"
| "slept_of (Called c r # es) = slept_of es"
| "slept_of (Logged s # es) = slept_of es"

fun is_mint :: "rng_call \<Rightarrow> bool" where
  "is_mint (OracleMint n) = True"
| "is_mint c = False"

text \<open>The values handed to \<open>updateConfig\<close> in a trace (\<open>NaN\<close> is none).\<close>

fun config_values :: "event list \<Rightarrow> int list" where
  "config_values [] = []"
| "config_values (Called (UpdateConfig k (Some v)) r # es) = v # config_values es"
| "config_values (e # es) = config_values es"

text \<open>The trace of the bootstrap up to the init call and its wait (lines 85--133).\<close>

abbreviation init_trace :: "string \<Rightarrow> exec_result \<Rightarrow> exec_result \<Rightarrow> event list" where
  "init_trace name r1 r2 \<equiv>
     [Logged ''Creating Oracle DID for you'', Called (OracleMint name) r1, Slept confirmation_ms,
      Logged ''To register the Oracle DID, We need initial RNG transaction to pass the data with it'',
      Called Init r2, Slept confirmation_ms]"

subsection \<open>How the trace grows\<close>

lemma calls_of_append [simp]: "calls_of (xs @ ys) = calls_of xs @ calls_of ys"
  by (induction xs rule: calls_of.induct) auto

lemma slept_of_append [simp]: "slept_of (xs @ ys) = slept_of xs @ slept_of ys"
  by (induction xs rule: slept_of.induct) auto

lemmas loop_unfold = loop_body_def generate_action_def update_stage_def rng_init_stage_def
  query_action_def stage_unfold

lemmas stage_splits = list.splits option.splits if_splits sum.splits prod.splits

lemma loop_body_prefix:
  "loop_body ex inp w = Inr (inp', w') \<Longrightarrow> prefix (events w) (events w')"
  "loop_body ex inp w = Inl h \<Longrightarrow> prefix (events w) (events (halt_world h))"
  by (auto simp: loop_unfold
           split: stage_splits)

lemma action_loop_prefix: "prefix (events w) (events (halt_world (action_loop ex inp w)))"
  by (rule action_loop_rule[where P = "\<lambda>_ w'. prefix (events w) (events w')"
                              and Q = "\<lambda>h. prefix (events w) (events (halt_world h))"])
     (auto intro: prefix_order.trans loop_body_prefix)

lemma main_halt_cases:
  assumes "\<And>e w. bootstrap ex name (initial_world new_rng bp) = Inl (e, w) \<Longrightarrow> P w"
    and "\<And>v w. bootstrap ex name (initial_world new_rng bp) = Inr (v, w) \<Longrightarrow>
                P (halt_world (action_loop ex inp w))"
  shows "P (halt_world (main ex new_rng bp name inp))"
  using assms by (auto simp: main_def split: sum.split)

lemma base_params_of_None: "base_params_of xs = None \<longleftrightarrow> length xs \<noteq> 8"
  by (cases xs rule: base_params_of.cases) auto

subsection \<open>The cost of a session\<close>

lemma loop_body_cost:
  "loop_body ex inp w = Inr (inp', w') \<Longrightarrow>
     2 * length (calls_of (events w')) + 3 * length inp' \<le> 2 * length (calls_of (events w)) + 3 * length inp \<and>
     sum_list (slept_of (events w')) + confirmation_ms * length inp' \<le> sum_list (slept_of (events w)) + confirmation_ms * length inp"
  "loop_body ex inp w = Inl h \<Longrightarrow>
     2 * length (calls_of (events (halt_world h))) \<le> 2 * length (calls_of (events w)) + 3 * length inp \<and>
     sum_list (slept_of (events (halt_world h))) \<le> sum_list (slept_of (events w)) + confirmation_ms * length inp"
  by (auto simp: loop_unfold
           split: stage_splits)

lemma loop_body_mints:
  "loop_body ex inp w = Inr (inp', w') \<Longrightarrow>
     filter is_mint (calls_of (events w')) = filter is_mint (calls_of (events w))"
  "loop_body ex inp w = Inl h \<Longrightarrow>
     filter is_mint (calls_of (events (halt_world h))) = filter is_mint (calls_of (events w))"
  by (auto simp: loop_unfold split: stage_splits)

lemma action_loop_cost:
  "2 * length (calls_of (events (halt_world (action_loop ex inp w))))
     \<le> 2 * length (calls_of (events w)) + 3 * length inp \<and>
   sum_list (slept_of (events (halt_world (action_loop ex inp w))))
     \<le> sum_list (slept_of (events w)) + confirmation_ms * length inp"
  by (rule action_loop_rule
        [where P = "\<lambda>inp' w'.
             2 * length (calls_of (events w')) + 3 * length inp' \<le> 2 * length (calls_of (events w)) + 3 * length inp \<and>
             sum_list (slept_of (events w')) + confirmation_ms * length inp'
               \<le> sum_list (slept_of (events w)) + confirmation_ms * length inp"])
     (auto dest!: loop_body_cost)

lemma action_loop_mints:
  "filter is_mint (calls_of (events (halt_world (action_loop ex inp w)))) = filter is_mint (calls_of (events w))"
  by (rule action_loop_rule
        [where P = "\<lambda>_ w'. filter is_mint (calls_of (events w')) = filter is_mint (calls_of (events w))"
           and Q = "\<lambda>h. filter is_mint (calls_of (events (halt_world h))) = filter is_mint (calls_of (events w))"])
     (auto dest!: loop_body_mints)

lemma bootstrap_cost:
  "bootstrap ex name w0 = Inl (e, w) \<Longrightarrow>
     length (calls_of (events w)) \<le> length (calls_of (events w0)) + 3 \<and>
     sum_list (slept_of (events w)) \<le> sum_list (slept_of (events w0)) + 3 * confirmation_ms"
  "bootstrap ex name w0 = Inr (v, w) \<Longrightarrow>
     length (calls_of (events w)) \<le> length (calls_of (events w0)) + 3 \<and>
     sum_list (slept_of (events w)) \<le> sum_list (slept_of (events w0)) + 3 * confirmation_ms"
  by (auto simp: bootstrap_def mint_stage_def register_stage_def rng_init_stage_def stage_unfold
           split: sum.splits prod.splits option.splits if_splits)

lemma bootstrap_mints:
  "bootstrap ex name w0 = Inl (e, w) \<Longrightarrow>
     filter is_mint (calls_of (events w)) = filter is_mint (calls_of (events w0)) @ [OracleMint name]"
  "bootstrap ex name w0 = Inr (v, w) \<Longrightarrow>
     filter is_mint (calls_of (events w)) = filter is_mint (calls_of (events w0)) @ [OracleMint name]"
  by (auto simp: bootstrap_def mint_stage_def register_stage_def rng_init_stage_def stage_unfold
           split: stage_splits)

lemma main_mints:
  "filter is_mint (calls_of (events (halt_world (main ex new_rng bp name inp)))) = [OracleMint name]"
proof (rule main_halt_cases)
  fix e w
  assume "bootstrap ex name (initial_world new_rng bp) = Inl (e, w)"
  from bootstrap_mints(1)[OF this] show "filter is_mint (calls_of (events w)) = [OracleMint name]"
    by (simp add: initial_world_def)
next
  fix v w
  assume "bootstrap ex name (initial_world new_rng bp) = Inr (v, w)"
  from bootstrap_mints(2)[OF this]
  show "filter is_mint (calls_of (events (halt_world (action_loop ex inp w)))) = [OracleMint name]"
    by (simp add: initial_world_def action_loop_mints)
qed

subsection \<open>Branches of the script\<close>

text \<open>The bootstrap after a mint and an init that both passed: what is left is the registration.\<close>

lemma bootstrap_after_init:
  assumes "ex (OracleMint name) (new_rng (rng_config_of bp)) = (r1, x1)" and "tx_of r1 = Some t1"
    and "ex Init x1 = (r2, x2)" and "Option.bind (data r2) txHash = Some t2"
  shows "bootstrap ex name (initial_world new_rng bp) =
           register_stage ex t2
             \<lparr>rng = x2, base_oracledid = Some \<lparr>unit = Option.bind (data r1) oracleDIDUnit, registered = False\<rparr>,
              curr_oracle_updated_tx = None, events = init_trace name r1 r2\<rparr>"
proof -
  from assms(4) obtain d where "data r2 = Some d" "txHash d = Some t2"
    by (auto simp: bind_eq_Some_conv)
  with assms(1-3) show ?thesis
    by (simp add: bootstrap_def mint_stage_def rng_init_stage_def initial_world_def stage_unfold)
qed

text \<open>An iteration reads the operator's choice only through \<open>parseInt\<close> (line 168).\<close>

lemma loop_body_choice:
  "parse_int a = parse_int b \<Longrightarrow> loop_body ex (a # inp) w = loop_body ex (b # inp) w"
  by (simp add: loop_body_def)

text \<open>
  A Generate action always calls \<open>updateConfig\<close> with \<open>parseInt\<close> of the length answer and
  then \<open>init\<close>, whatever the answer and however the action ends (lines 179--187).
\<close>

lemma generate_action_configures:
  "generate_action ex h (l # inp) w = Inl hl \<Longrightarrow>
     \<exists>r0 r1 evs. events (halt_world hl) =
       events w @ Called (UpdateConfig ''rngOutputLen'' (parse_int l)) r0 # Called Init r1 # evs"
  "generate_action ex h (l # inp) w = Inr (inp', w') \<Longrightarrow>
     \<exists>r0 r1 evs. events w' =
       events w @ Called (UpdateConfig ''rngOutputLen'' (parse_int l)) r0 # Called Init r1 # evs"
  by (auto simp: generate_action_def update_stage_def rng_init_stage_def stage_unfold
           split: stage_splits)

subsection \<open>The values handed to \<open>updateConfig\<close>\<close>

lemma config_values_append [simp]: "config_values (xs @ ys) = config_values xs @ config_values ys"
  by (induction xs rule: config_values.induct) auto

lemma config_values_UpdateConfig [simp]:
  "config_values (Called (UpdateConfig k v) r # es) = (case v of None \<Rightarrow> [] | Some x \<Rightarrow> [x]) @ config_values es"
  by (cases v) simp_all

lemma bootstrap_config_values:
  "bootstrap ex name w0 = Inl (e, w) \<Longrightarrow> config_values (events w) = config_values (events w0)"
  "bootstrap ex name w0 = Inr (v, w) \<Longrightarrow> config_values (events w) = config_values (events w0)"
  by (auto simp: bootstrap_def mint_stage_def register_stage_def rng_init_stage_def stage_unfold
           split: stage_splits)

lemma loop_body_config_values:
  "list_all js_double (config_values (events w)) \<Longrightarrow> loop_body ex inp w = Inr (inp', w') \<Longrightarrow>
     list_all js_double (config_values (events w'))"
  "list_all js_double (config_values (events w)) \<Longrightarrow> loop_body ex inp w = Inl hl \<Longrightarrow>
     list_all js_double (config_values (events (halt_world hl)))"
  by (auto simp: loop_unfold dest: parse_int_double split: stage_splits)

end
