(* ===== verification/Ledger.thy ===== *)
theory Ledger
  imports Session
begin

text \<open>
  The ledger the executor drives (spec, sections 3 and 4.1), as an abstract state with
  a nondeterministic step relation \<open>ledger_step\<close> over the calls and their results:
  the chain of heads of the minted identity (a mint starts a new empty chain), the
  value published under each head (any value: the chain draws it), and whether every
  registration and update extended the chain from its last head (\<open>lg_linear\<close>, the
  single-head invariant). A failed submission changes nothing, since the spec has no
  partial success. \<open>ledger_refines \<alpha> ex\<close> says that the executor \<open>ex\<close> simulates
  the ledger through the abstraction \<open>\<alpha>\<close> of its hidden state: every call of \<open>ex\<close>
  is a \<open>ledger_step\<close> between the abstractions. \<open>ledger_agrees\<close> is what the script
  and the ledger agree on; the stage and loop lemmas below show that the script keeps
  it, for every executor that refines the ledger.
\<close>

record ledger =
  lg_chain :: "string list"
  lg_output :: "string \<Rightarrow> string option"
  lg_linear :: bool

inductive ledger_step :: "ledger \<Rightarrow> rng_call \<Rightarrow> exec_result \<Rightarrow> ledger \<Rightarrow> bool" where
  mint: "tx_of r \<noteq> None \<Longrightarrow> ledger_step L (OracleMint n) r (L\<lparr>lg_chain := [], lg_linear := True\<rparr>)"
| mint_fail: "tx_of r = None \<Longrightarrow> ledger_step L (OracleMint n) r L"
| init: "ledger_step L Init r L"
| register: "tx_of r = Some tx \<Longrightarrow>
     ledger_step L (OracleRegister t u) r
       (L\<lparr>lg_chain := lg_chain L @ [tx], lg_output := (lg_output L)(tx \<mapsto> v),
          lg_linear := (lg_linear L \<and> lg_chain L = [])\<rparr>)"
| register_fail: "tx_of r = None \<Longrightarrow> ledger_step L (OracleRegister t u) r L"
| update: "tx_of r = Some tx \<Longrightarrow>
     ledger_step L (OracleUpdate t u h) r
       (L\<lparr>lg_chain := lg_chain L @ [tx], lg_output := (lg_output L)(tx \<mapsto> v),
          lg_linear := (lg_linear L \<and> lg_chain L \<noteq> [] \<and> h = last (lg_chain L))\<rparr>)"
| update_fail: "tx_of r = None \<Longrightarrow> ledger_step L (OracleUpdate t u h) r L"
| query: "Option.bind (data r) rngOutput = lg_output L h \<Longrightarrow> ledger_step L (OracleQuery h) r L"
| config: "ledger_step L (UpdateConfig k v) r L"

definition ledger_refines :: "('x \<Rightarrow> ledger) \<Rightarrow> 'x executor \<Rightarrow> bool" where
  "ledger_refines \<alpha> ex \<longleftrightarrow> (\<forall>c x. ledger_step (\<alpha> x) c (fst (ex c x)) (\<alpha> (snd (ex c x))))"

definition ledger_agrees :: "('x \<Rightarrow> ledger) \<Rightarrow> 'x world \<Rightarrow> bool" where
  "ledger_agrees \<alpha> w \<longleftrightarrow>
     lg_chain (\<alpha> (rng w)) \<noteq> [] \<and>
     curr_oracle_updated_tx w = Some (last (lg_chain (\<alpha> (rng w)))) \<and>
     lg_output (\<alpha> (rng w)) (last (lg_chain (\<alpha> (rng w)))) \<noteq> None \<and>
     lg_linear (\<alpha> (rng w))"

inductive_simps ledger_step_mint: "ledger_step L (OracleMint n) r L'"
inductive_simps ledger_step_init: "ledger_step L Init r L'"
inductive_simps ledger_step_register: "ledger_step L (OracleRegister t u) r L'"
inductive_simps ledger_step_update: "ledger_step L (OracleUpdate t u h) r L'"
inductive_simps ledger_step_query: "ledger_step L (OracleQuery h) r L'"
inductive_simps ledger_step_config: "ledger_step L (UpdateConfig k v) r L'"

lemmas ledger_step_simps = ledger_step_mint ledger_step_init ledger_step_register
  ledger_step_update ledger_step_query ledger_step_config

lemma ledger_call:
  "ledger_refines \<alpha> ex \<Longrightarrow> ledger_step (\<alpha> (rng w)) c (fst (call_rng ex c w)) (\<alpha> (rng (snd (call_rng ex c w))))"
  by (simp add: ledger_refines_def call_rng_eq)

lemma ledger_unchanged:
  assumes "ledger_refines \<alpha> ex"
  shows "\<alpha> (rng (snd (call_rng ex Init w))) = \<alpha> (rng w)"
    and "\<alpha> (rng (snd (call_rng ex (UpdateConfig k v) w))) = \<alpha> (rng w)"
    and "\<alpha> (rng (snd (call_rng ex (OracleQuery h) w))) = \<alpha> (rng w)"
  using ledger_call[OF assms, of w Init] ledger_call[OF assms, of w "UpdateConfig k v"]
    ledger_call[OF assms, of w "OracleQuery h"]
  by (simp_all add: ledger_step_simps)

lemma ledger_agrees_frame:
  "\<alpha> (rng w') = \<alpha> (rng w) \<Longrightarrow> curr_oracle_updated_tx w' = curr_oracle_updated_tx w \<Longrightarrow>
   ledger_agrees \<alpha> w' = ledger_agrees \<alpha> w"
  by (simp add: ledger_agrees_def)

lemma rng_init_stage_ledger:
  "ledger_refines \<alpha> ex \<Longrightarrow> rng_init_stage ex w = Inr (t, w') \<Longrightarrow>
   \<alpha> (rng w') = \<alpha> (rng w) \<and> curr_oracle_updated_tx w' = curr_oracle_updated_tx w"
  by (auto simp: sleep_def ledger_unchanged(1) rng_init_stage_frame dest!: rng_init_stage_Inr)

lemma mint_stage_ledger:
  assumes "ledger_refines \<alpha> ex" and "mint_stage ex name w = Inr (v, w')"
  shows "lg_chain (\<alpha> (rng w')) = [] \<and> lg_linear (\<alpha> (rng w'))"
  using assms(2) ledger_call[OF assms(1), of w "OracleMint name"]
  by (auto simp: mint_stage_def Let_def sleep_def ledger_step_simps split: prod.splits if_splits)

lemma register_stage_ledger:
  assumes "ledger_refines \<alpha> ex" and "register_stage ex t w = Inr (v, w')"
  shows "lg_chain (\<alpha> (rng w')) = lg_chain (\<alpha> (rng w)) @ [the (curr_oracle_updated_tx w')] \<and>
         curr_oracle_updated_tx w' \<noteq> None \<and>
         lg_output (\<alpha> (rng w')) (the (curr_oracle_updated_tx w')) \<noteq> None \<and>
         lg_linear (\<alpha> (rng w')) = (lg_linear (\<alpha> (rng w)) \<and> lg_chain (\<alpha> (rng w)) = [])"
  using assms(2) ledger_call[OF assms(1), of w "OracleRegister t (unit (the (base_oracledid w)))"]
  by (auto simp: register_stage_def Let_def split_def sleep_def ledger_step_simps split: option.splits)

lemma update_stage_ledger:
  assumes "ledger_refines \<alpha> ex" and "ledger_agrees \<alpha> w"
    and "curr_oracle_updated_tx w = Some h" and "update_stage ex t h w = Inr (v, w')"
  shows "ledger_agrees \<alpha> w'"
  using assms(2-) ledger_call[OF assms(1), of w "OracleUpdate t (unit (the (base_oracledid w))) h"]
  by (auto simp: update_stage_def ledger_agrees_def Let_def split_def sleep_def ledger_step_simps
           split: option.splits)

lemma bootstrap_ledger:
  assumes "ledger_refines \<alpha> ex" and "bootstrap ex name w0 = Inr (v, w)"
  shows "ledger_agrees \<alpha> w"
proof -
  from assms(2) obtain w1 w2 t where
    m: "mint_stage ex name (log_line ''Creating Oracle DID for you'' w0) = Inr ((), w1)" and
    i: "rng_init_stage ex (log_line ''To register the Oracle DID, We need initial RNG transaction to pass the data with it'' w1) = Inr (t, w2)" and
    r: "register_stage ex t w2 = Inr (v, w)"
    by (auto simp: bootstrap_def split: sum.splits prod.splits)
  from mint_stage_ledger[OF assms(1) m] rng_init_stage_ledger[OF assms(1) i]
  have "lg_chain (\<alpha> (rng w2)) = [] \<and> lg_linear (\<alpha> (rng w2))" by (simp add: log_line_def)
  with register_stage_ledger[OF assms(1) r] show ?thesis
    by (auto simp: ledger_agrees_def)
qed

lemma loop_body_ledger:
  assumes "ledger_refines \<alpha> ex" and "loop_inv u w" and "ledger_agrees \<alpha> w"
    and "loop_body ex inp w = Inr (inp', w')"
  shows "ledger_agrees \<alpha> w'"
proof -
  from assms(2) obtain h where h: "curr_oracle_updated_tx w = Some h" "h \<noteq> []"
    by (auto simp: loop_inv_def js_truthy_iff)
  from assms(4) obtain a where inp: "inp = a # tl inp"
    by (cases inp) (auto simp: loop_body_def)
  show ?thesis
  proof (cases "parse_int a = Some 1")
    case True
    with assms(4) h inp have g: "generate_action ex h (tl inp) w = Inr (inp', w')"
      by (metis loop_body_dispatch)
    then obtain l t w2 where
      i: "rng_init_stage ex (snd (call_rng ex (UpdateConfig ''rngOutputLen'' (parse_int l)) w)) = Inr (t, w2)"
      and u: "update_stage ex t h w2 = Inr ((), w')"
      by (auto simp: generate_action_def Let_def split: list.splits sum.splits prod.splits)
    from rng_init_stage_ledger[OF assms(1) i] h
      ledger_unchanged(2)[OF assms(1), where k = "''rngOutputLen''" and v = "parse_int l" and w = w]
    have f: "\<alpha> (rng w2) = \<alpha> (rng w)" "curr_oracle_updated_tx w2 = Some h"
      by (simp_all add: call_rng_eq)
    with assms(3) ledger_agrees_frame[of \<alpha> w2 w] h(1) have "ledger_agrees \<alpha> w2" by simp
    from update_stage_ledger[OF assms(1) this f(2) u] show ?thesis .
  next
    case False
    with assms(4) h inp have w': "w' = (if parse_int a = Some 2 then query_action ex h w else w)"
      by (subst (asm) inp, subst (asm) loop_body_dispatch) auto
    have "\<alpha> (rng (query_action ex h w)) = \<alpha> (rng w)"
      using ledger_unchanged(3)[OF assms(1), where h = h and w = w] by (simp add: call_rng_eq)
    with assms(3) ledger_agrees_frame[of \<alpha> "query_action ex h w" w] w' show ?thesis
      by (simp split: if_splits)
  qed
qed

lemma ledger_frame:
  assumes "ledger_refines \<alpha> ex"
  shows "\<alpha> (snd (ex Init x)) = \<alpha> x" and "\<alpha> (snd (ex (UpdateConfig k v) x)) = \<alpha> x"
    and "\<alpha> (snd (ex (OracleQuery h) x)) = \<alpha> x"
    and "tx_of (fst (ex c x)) = None \<Longrightarrow> \<alpha> (snd (ex c x)) = \<alpha> x"
proof -
  have st: "ledger_step (\<alpha> x) c (fst (ex c x)) (\<alpha> (snd (ex c x)))" for c x
    using assms by (simp add: ledger_refines_def)
  show "\<alpha> (snd (ex Init x)) = \<alpha> x"
    using st[where c = Init and x = x] by (simp add: ledger_step_init)
  show "\<alpha> (snd (ex (UpdateConfig k v) x)) = \<alpha> x"
    using st[where c = "UpdateConfig k v" and x = x] by (simp add: ledger_step_config)
  show "\<alpha> (snd (ex (OracleQuery h) x)) = \<alpha> x"
    using st[where c = "OracleQuery h" and x = x] by (simp add: ledger_step_query)
  show "tx_of (fst (ex c x)) = None \<Longrightarrow> \<alpha> (snd (ex c x)) = \<alpha> x"
    using st[where c = c and x = x] by (cases c) (auto simp: ledger_step_simps)
qed

lemma loop_body_ledger_halt:
  "ledger_refines \<alpha> ex \<Longrightarrow> loop_inv u w \<Longrightarrow> ledger_agrees \<alpha> w \<Longrightarrow> loop_body ex inp w = Inl hl \<Longrightarrow>
   ledger_agrees \<alpha> (halt_world hl)"
  by (auto simp: loop_unfold ledger_agrees_def loop_inv_def ledger_frame split: stage_splits)

lemma bootstrap_crash_no_head:
  "bootstrap ex name w0 = Inl (e, w) \<Longrightarrow> curr_oracle_updated_tx w = curr_oracle_updated_tx w0"
  by (auto simp: bootstrap_def mint_stage_def register_stage_def rng_init_stage_def stage_unfold
           split: stage_splits)

end
