(* ===== verification/Fake_Executor.thy ===== *)
theory Fake_Executor
  imports Ledger
begin

text \<open>
  Concrete executors, the instrumented fakes of the specification (section 8). The fake
  chain numbers every submitted transaction (\<open>T1\<close>, \<open>T2\<close>, ...), mints the unit
  \<open>U<n>\<close> with the \<open>n\<close>-th transaction, publishes its random value under the
  transaction of every registration and update, and answers queries from what it
  published. It records the chain of heads of the minted identity and whether every
  registration and update extended that chain from its last head (the ledger of
  \<open>Ledger\<close>). \<open>failing_at P\<close> is the same chain, except that every call satisfying \<open>P\<close>
  is rejected with no payload, and \<open>unitless_mint\<close> the same chain whose mint answers no
  unit. These executors are not part of the repository: they are
  the inputs at which the theorems about the script are evaluated.
\<close>

record fake_chain =
  tx_count :: nat
  fake_config :: rng_config
  published :: "string \<Rightarrow> string option"
  fake_heads :: "string list"
  fake_linear :: bool
  rng_value :: string

definition fake_tx :: "nat \<Rightarrow> string" where
  "fake_tx n = ''T'' @ decimal_string n"

definition tx_result :: "string \<Rightarrow> exec_result" where
  "tx_result t = \<lparr>data = Some \<lparr>txHash = Some t, oracleDIDUnit = None, rngOutput = None\<rparr>, error = None\<rparr>"

definition rejected :: exec_result where
  "rejected = \<lparr>data = None, error = Some ''rejected''\<rparr>"

fun fake_exec :: "fake_chain executor" where
  "fake_exec (OracleMint name) s =
     (let n = Suc (tx_count s) in
      (\<lparr>data = Some \<lparr>txHash = Some (fake_tx n), oracleDIDUnit = Some (''U'' @ decimal_string n),
                      rngOutput = None\<rparr>, error = None\<rparr>,
       s\<lparr>tx_count := n, fake_heads := [], fake_linear := True\<rparr>))"
| "fake_exec Init s =
     (let n = Suc (tx_count s) in (tx_result (fake_tx n), s\<lparr>tx_count := n\<rparr>))"
| "fake_exec (OracleRegister t u) s =
     (let n = Suc (tx_count s) in
      (tx_result (fake_tx n),
       s\<lparr>tx_count := n, published := (published s)(fake_tx n \<mapsto> rng_value s),
         fake_heads := fake_heads s @ [fake_tx n], fake_linear := (fake_linear s \<and> fake_heads s = [])\<rparr>))"
| "fake_exec (OracleUpdate t u h) s =
     (let n = Suc (tx_count s) in
      (tx_result (fake_tx n),
       s\<lparr>tx_count := n, published := (published s)(fake_tx n \<mapsto> rng_value s),
         fake_heads := fake_heads s @ [fake_tx n],
         fake_linear := (fake_linear s \<and> fake_heads s \<noteq> [] \<and> h = last (fake_heads s))\<rparr>))"
| "fake_exec (OracleQuery h) s =
     (case published s h of
        Some v \<Rightarrow> (\<lparr>data = Some \<lparr>txHash = None, oracleDIDUnit = None, rngOutput = Some v\<rparr>, error = None\<rparr>, s)
      | None \<Rightarrow> (rejected, s))"
| "fake_exec (UpdateConfig k v) s =
     (\<lparr>data = None, error = None\<rparr>,
      if k = ''rngOutputLen'' then s\<lparr>fake_config := (fake_config s)\<lparr>rngOutputLen := v\<rparr>\<rparr> else s)"

definition failing_at :: "(rng_call \<Rightarrow> bool) \<Rightarrow> fake_chain executor" where
  "failing_at P c s = (if P c then (rejected, s) else fake_exec c s)"

text \<open>The fake chain, except that its mint answers no \<open>oracleDIDUnit\<close>.\<close>

definition unitless_mint :: "fake_chain executor" where
  "unitless_mint c s =
     (case c of
        OracleMint n \<Rightarrow> (tx_result (fake_tx (Suc (tx_count s))), snd (fake_exec c s))
      | _ \<Rightarrow> fake_exec c s)"

definition new_fake :: "rng_config \<Rightarrow> fake_chain" where
  "new_fake cfg =
     \<lparr>tx_count = 0, fake_config = cfg, published = Map.empty, fake_heads = [], fake_linear = True,
       rng_value = ''42''\<rparr>"

text \<open>Operator answers to the first prompt, as typed (with stray blanks around the selector).\<close>

definition demo_params :: base_params where
  "demo_params =
     \<lparr>bp_network = '' 0 '', bp_blockfrostApiKey = ''preprodKey'', bp_rngAPIURL = ''https://rng.example'',
      bp_ogmiosURL = ''wss://ogmios.example'', bp_oracleCBOR = ''59084f'', bp_rngCBOR = ''590a2c'',
      bp_walletSeed = ''twelve seed words'', bp_rngOutputLen = ''6''\<rparr>"

text \<open>The script after a successful bootstrap on the fake chain, waiting for the first action.\<close>

definition demo_registered :: "fake_chain world" where
  "demo_registered = halt_world (main fake_exec new_fake demo_params ''My Oracle'' [])"

text \<open>What the fake chain holds of the ledger of the specification.\<close>

definition fake_ledger :: "fake_chain \<Rightarrow> ledger" where
  "fake_ledger s = \<lparr>lg_chain = fake_heads s, lg_output = published s, lg_linear = fake_linear s\<rparr>"

subsection \<open>Evaluation\<close>

text \<open>
  The rules that evaluate the script on these executors by the simplifier: the stage
  definitions, the input parsing on literals, and the fake chain.
\<close>

lemma eq_char_of_iff: "c = char_of n \<longleftrightarrow> take_bit 8 n = of_char c"
  by (metis char_of_eq_iff)

lemmas input_eval = eq_char_of_iff parse_int_def parse_int_math_def number_value_small js_sign_def js_radix_prefix_def digit_value_def
  digits_to_nat_def js_whitespace_def char_of_eq_iff

lemmas fake_eval = cli_defs stage_unfold fake_tx_def tx_result_def rejected_def new_fake_def
  demo_params_def loop_body_def action_loop_Cons tx_of_def
  confirmation_ms_def input_eval failing_at_def unitless_mint_def demo_registered_def
  decimal_string.simps

lemma fake_tx_nonempty [simp]: "fake_tx n \<noteq> []"
  by (simp add: fake_tx_def)

subsection \<open>The fake chain implements the ledger\<close>

lemma fake_exec_ledger: "ledger_refines fake_ledger fake_exec"
proof -
  have "ledger_step (fake_ledger x) c (fst (fake_exec c x)) (fake_ledger (snd (fake_exec c x)))" for c x
    by (cases c) (auto simp: fake_ledger_def ledger_step_simps tx_of_def tx_result_def rejected_def Let_def
                        split: option.split)
  then show ?thesis by (simp add: ledger_refines_def)
qed

end
