(* ===== verification/Globals.thy ===== *)
theory Globals
  imports Session
begin

text \<open>
  The module globals \<open>BASE_ORACLEDID\<close> and \<open>CURR_ORACLE_UPDATED_TX\<close> (lines 63--68)
  against their declared TypeScript types and against each other (spec, section 3).
  \<open>globals_wf\<close>: the head is never the empty string, there is no head before an
  identity, and an identity is registered exactly when a head is held.
  \<open>globals_typed\<close> adds that the identity's \<open>unit\<close> is a string, as its declared
  type \<open>unit: string\<close> says; the script never checks it (line 115), so this needs
  \<open>mint_contract\<close>: a mint that returns a transaction id also returns a unit.
\<close>

definition mint_contract :: "'x executor \<Rightarrow> bool" where
  "mint_contract ex \<longleftrightarrow>
     (\<forall>n x. tx_of (fst (ex (OracleMint n) x)) \<noteq> None \<longrightarrow>
            Option.bind (data (fst (ex (OracleMint n) x))) oracleDIDUnit \<noteq> None)"

definition globals_wf :: "'x world \<Rightarrow> bool" where
  "globals_wf w \<longleftrightarrow>
     curr_oracle_updated_tx w \<noteq> Some [] \<and>
     (case base_oracledid w of
        None \<Rightarrow> curr_oracle_updated_tx w = None
      | Some d \<Rightarrow> registered d \<longleftrightarrow> curr_oracle_updated_tx w \<noteq> None)"

definition globals_typed :: "'x world \<Rightarrow> bool" where
  "globals_typed w \<longleftrightarrow>
     globals_wf w \<and> (case base_oracledid w of None \<Rightarrow> True | Some d \<Rightarrow> unit d \<noteq> None)"

lemma action_loop_halt_inv:
  "loop_inv u w \<Longrightarrow> loop_inv u (halt_world (action_loop ex inp w))"
  by (rule action_loop_rule[where P = "\<lambda>_ w. loop_inv u w" and Q = "\<lambda>h. loop_inv u (halt_world h)"])
     (auto intro: loop_body_inv loop_body_halt_inv)

lemma loop_inv_globals: "loop_inv u w \<Longrightarrow> globals_wf w"
  by (auto simp: loop_inv_def globals_wf_def js_truthy_iff)

lemma bootstrap_globals:
  "w0 = initial_world new_rng bp \<Longrightarrow> bootstrap ex name w0 = Inl (e, w) \<Longrightarrow> globals_wf w"
  by (auto simp: bootstrap_def mint_stage_def register_stage_def rng_init_stage_def stage_unfold
                 initial_world_def globals_wf_def
           split: stage_splits)

lemma bootstrap_unit:
  "mint_contract ex \<Longrightarrow> w0 = initial_world new_rng bp \<Longrightarrow> bootstrap ex name w0 = Inl (e, w) \<Longrightarrow>
     base_oracledid w = Some d \<Longrightarrow> unit d \<noteq> None"
  "mint_contract ex \<Longrightarrow> w0 = initial_world new_rng bp \<Longrightarrow> bootstrap ex name w0 = Inr (v, w) \<Longrightarrow>
     base_oracledid w = Some d \<Longrightarrow> unit d \<noteq> None"
  by (auto simp: bootstrap_def mint_stage_def register_stage_def rng_init_stage_def stage_unfold
                 initial_world_def mint_contract_def
           split: stage_splits)

lemma bootstrap_minted_unit:
  "bootstrap ex name w0 = Inr (v, w) \<Longrightarrow>
     base_oracledid w =
       Some \<lparr>unit = Option.bind (data (fst (ex (OracleMint name) (rng w0)))) oracleDIDUnit, registered = True\<rparr>"
  by (auto simp: bootstrap_def mint_stage_def register_stage_def rng_init_stage_def stage_unfold
           split: stage_splits)

end
