(* ===== verification/Errors.thy ===== *)
theory Errors
  imports Globals
begin

text \<open>
  The error paths of the script (spec, section 7): every \<open>throw\<close> of the script is a
  fatal stage failure, raised right after the call that failed. \<open>crash_cause e ev\<close>
  says that the event \<open>ev\<close> is the call whose result raises \<open>e\<close>: a mint, register or
  update answering no transaction id (lines 100, 146, 209), an init answering no
  payload (lines 125, 187), each with the library's \<open>error\<close> as message, or an init
  answering a payload without \<open>txHash\<close>, on which \<open>txHash.slice\<close> raises a
  \<open>TypeError\<close> (lines 128, 190). No other runtime error can occur (the \<open>null\<close> read
  of \<open>BASE_ORACLEDID.unit\<close> never does).
\<close>

fun crash_cause :: "cli_error \<Rightarrow> event \<Rightarrow> bool" where
  "crash_cause (MintError m) (Called (OracleMint n) r) \<longleftrightarrow> tx_of r = None \<and> m = error r"
| "crash_cause (InitError m) (Called Init r) \<longleftrightarrow> data r = None \<and> m = error r"
| "crash_cause (RegisterError m) (Called (OracleRegister t u) r) \<longleftrightarrow> tx_of r = None \<and> m = error r"
| "crash_cause (UpdateError m) (Called (OracleUpdate t u h) r) \<longleftrightarrow> tx_of r = None \<and> m = error r"
| "crash_cause (TypeError s) (Called Init r) \<longleftrightarrow>
     s = ''Cannot read properties of undefined (reading slice)'' \<and>
     data r \<noteq> None \<and> Option.bind (data r) txHash = None"
| "crash_cause e ev \<longleftrightarrow> False"

definition crash_explained :: "cli_error \<Rightarrow> 'x world \<Rightarrow> bool" where
  "crash_explained e w \<longleftrightarrow> events w \<noteq> [] \<and> crash_cause e (last (events w))"

lemma rng_init_stage_crash: "rng_init_stage ex w = Inl (e, w') \<Longrightarrow> crash_explained e w'"
  by (auto simp: rng_init_stage_def stage_unfold crash_explained_def split: stage_splits)

lemma bootstrap_crash:
  "w0 = initial_world new_rng bp \<Longrightarrow> bootstrap ex name w0 = Inl (e, w) \<Longrightarrow> crash_explained e w"
  by (auto simp: bootstrap_def mint_stage_def register_stage_def stage_unfold initial_world_def
                 crash_explained_def split: stage_splits dest!: rng_init_stage_crash rng_init_stage_Inr)

lemma loop_body_crash:
  "loop_inv u w \<Longrightarrow> loop_body ex inp w = Inl (Crashed e w') \<Longrightarrow> crash_explained e w'"
  by (auto simp: loop_body_def generate_action_def update_stage_def stage_unfold loop_inv_def
                 crash_explained_def split: stage_splits dest!: rng_init_stage_crash rng_init_stage_Inr)

lemma action_loop_crash:
  assumes "loop_inv u w" and "action_loop ex inp w = Crashed e w'"
  shows "crash_explained e w'"
proof -
  have "\<forall>e w'. action_loop ex inp w = Crashed e w' \<longrightarrow> crash_explained e w'"
    using assms(1)
    by (rule action_loop_rule[where P = "\<lambda>_ w. loop_inv u w"])
       (auto intro: loop_body_inv loop_body_crash)
  with assms(2) show ?thesis by blast
qed

end
