(* ===== verification/Spec2Isabelle.thy ===== *)
theory Spec2Isabelle
  imports Fake_Executor Errors
begin

text \<open>
  \<^bold>\<open>A verification development of rng-ts-cli.\<close>
  The repository holds one program, the command-line script \<open>src/src/index.ts\<close>
  (227 lines). It bootstraps an on-chain Oracle identity and then serves an endless
  operator loop, driving the external library \<open>rng-ts-lib\<close> (the \<open>RNG\<close> instance),
  which builds, signs and submits the transactions.

  \<^bold>\<open>Parts of the program and where they are modelled.\<close>
  \<^item> Operator input (\<open>inquirer\<close> prompts, lines 23--61, 87--93, 159--166, 171--177)
    and its parsing by \<open>String.prototype.trim\<close> and \<open>parseInt\<close>. Theory
    \<open>Js_Input\<close>: \<open>js_trim\<close>, \<open>parse_int\<close> (with \<open>js_sign\<close>, \<open>js_radix_prefix\<close>,
    \<open>radix_digits\<close>, \<open>digit_value\<close>, \<open>digits_to_nat\<close>), following the ECMAScript
    definition, \<open>NaN\<close> as \<open>None\<close>; \<open>parse_int_math\<close> is the mathematical value of
    the numeral and \<open>parse_int\<close> its Number value \<open>number_value\<close>, rounded to the
    nearest double with ties to even (\<open>round_mag\<close>); \<open>js_double\<close> characterises
    the integers a double holds. Theory \<open>Session\<close> reads all answers from one
    stream in prompt order: \<open>base_params_of\<close> makes the \<open>baseParams\<close> object of the
    eight answers of lines 23--61, and \<open>session\<close> composes the prompts with
    \<open>Cli.main\<close>, which takes the record, the oracle name and the loop answers.
  \<^item> The executor interface (\<open>new RNG(...)\<close>, line 74, and the six methods the script
    awaits). Theory \<open>Executor\<close>: the options record \<open>rng_config\<close>, a datatype
    \<open>rng_call\<close> with one constructor per method and the arguments passed, the result
    record \<open>exec_result\<close> (\<open>{data, error}\<close> with \<open>txHash\<close>, \<open>oracleDIDUnit\<close>,
    \<open>rngOutput\<close>, each possibly \<open>undefined\<close>), and \<open>'x executor\<close>, a step function
    over a hidden state \<open>'x\<close>. Every theorem about the script holds for all executors
    unless it names a hypothesis on them.
  \<^item> The script itself. Theory \<open>Cli\<close>: the module state (\<open>BASE_ORACLEDID\<close>,
    \<open>CURR_ORACLE_UPDATED_TX\<close>, the \<open>RNG\<close> instance) is the record \<open>world\<close>, extended
    with the list of observable events (each awaited call with its result, each
    \<open>sleep\<close>, each console line). One definition per block of the source:
    \<open>networkData\<close> (lines 6--21), \<open>rng_config_of\<close> and \<open>initial_world\<close> (63--83),
    \<open>sleep\<close> (70--72, the confirmation waiter), \<open>mint_stage\<close> (95--115),
    \<open>rng_init_stage\<close> (123--133 and 184--198), \<open>register_stage\<close> (135--156),
    \<open>bootstrap\<close> (85--156), \<open>update_stage\<close> (200--217), \<open>generate_action\<close>
    (170--218), \<open>query_action\<close> (220--225), \<open>loop_body\<close> (one iteration, 158--226),
    \<open>action_loop\<close> and \<open>main\<close>. A \<open>throw\<close>, and the \<open>TypeError\<close> JavaScript raises
    on a property of \<open>undefined\<close>, is a left value carrying the world at that point;
    the halt \<open>Crashed\<close> ends the script, the halt \<open>Awaiting\<close> is the script blocked at
    a prompt no one answers.
  \<^item> The module globals against their declared types. Theory \<open>Globals\<close>:
    \<open>globals_wf\<close> (the head and the registered flag agree) and \<open>globals_typed\<close>
    (also \<open>BASE_ORACLEDID.unit\<close> is a string), with the executor hypothesis
    \<open>mint_contract\<close>. Theory \<open>Ledger\<close>: the contract of the executor (spec, section
    4.1) as an abstract ledger, the inductive relation \<open>ledger_step\<close>, and the
    simulation \<open>ledger_refines\<close>. Theory \<open>Errors\<close>: \<open>crash_cause\<close>, which call raises which
    \<open>throw\<close> or \<open>TypeError\<close> of the script.
  \<^item> Display (\<open>ora\<close> spinners, \<open>chalk\<close>) is not modelled: it holds no state the script
    reads. \<open>console.log\<close> lines are \<open>Logged\<close> events.

  \<^bold>\<open>Specifications.\<close> Theory \<open>Protocol\<close> states what the orchestration promises
  (spec, sections 4--7), independently of the code: \<open>proto_step\<close>, an inductive
  relation over executor calls and results (mint, init, register with the init
  transaction and the minted unit, then reconfigure/init/update cycles each consuming
  the current head, queries of the head, and a halt after any failed transaction), and
  its runs \<open>proto_run\<close>; the executable monitor \<open>proto_call\<close> is proved equal to it
  (\<open>proto_step_iff\<close>, \<open>proto_run_iff\<close>). The confirmation discipline is the monitor
  \<open>wait_event\<close>. \<open>abs_world\<close> abstracts the module state of the loop to the phase
  \<open>Registered unit head\<close>. Theory \<open>Fake_Executor\<close> gives concrete executors: a fake
  chain numbering its transactions \<open>T1, T2, ...\<close>, a variant rejecting chosen calls
  and one minting no unit; they are the concrete inputs at which the witnesses
  evaluate the theorems by the simplifier.

  \<^bold>\<open>What is proved.\<close>
  \<^item> Refinement (C1): every trace of \<open>main\<close> is a run of \<open>proto_step\<close>, for every
    executor whose \<open>init\<close> never answers an empty \<open>txHash\<close>; the final phase is the
    abstraction of \<open>BASE_ORACLEDID\<close> and \<open>CURR_ORACLE_UPDATED_TX\<close>. This gives the
    sequencing invariant, the single head, and the immutability of the unit of the spec.
  \<^item> Ordering (C2): no call starts before the confirmation wait of the previous
    submitted transaction, for every executor.
  \<^item> The bootstrap on each of its branches, for every executor, as exact equations of
    the state and trace: its success path (C3), a failed mint (C9) and a failed
    registration (C10). Liveness against an executor whose transactions all succeed
    (C4), and the identity invariant of the loop (C5).
  \<^item> Each action of the loop on every branch, for every executor: Generate (C6), Query
    (C7, which prints \<open>undefined\<close> for a result with no output), any other choice (C8),
    and a failed update, which ends the process (C11).
  \<^item> Where the code departs from the spec, for every executor: the minted unit is never
    checked, so an executor that mints no unit leaves the identity registered with an
    undefined unit (C12); an action answer is read by its numeric prefix (C13); the
    output length is handed to \<open>updateConfig\<close> unvalidated (C14).
  \<^item> For every executor: the head held while waiting is the id returned by the last
    register or update call of the trace (C15); the script never reads the unit of a
    \<open>null\<close> identity (C16); every register and update call is given the unit the
    mint returned and the raw \<open>txHash\<close> of the init just before it, and every update
    and query call the current head (C18, the dependency monitor \<open>dep_event\<close> of
    \<open>Protocol\<close>). Trimming before \<open>parseInt\<close> is redundant (C17, in \<open>Js_Input\<close>).
  \<^item> The operator session (\<open>Session\<close>): exactly one mint per run once the name is
    answered, and the name is never asked again (C19). The globals agree at every halt
    for every executor (C20) and hold their declared types under \<open>mint_contract\<close>
    (C21). An iteration consumes the choice, and the output length only for Generate
    (C22, the variant of the loop). A run with \<open>n\<close> loop answers makes at most
    \<open>3 + 3n/2\<close> executor calls (C23) and waits at most \<open>120000 (3 + n)\<close> milliseconds
    (C24).
  \<^item> Error paths (\<open>Errors\<close>): for every executor, a run that stops with an error
    stops right after the call that failed, with that call's error (C25).
  \<^item> Refinement of the ledger (\<open>Ledger\<close>): for every executor that simulates the
    abstract ledger of the spec, whenever the script holds a head it is the last
    transaction of the identity's chain, a value is published under it, and the chain
    never branched (C26). The fake chain implements the ledger (\<open>fake_exec_ledger\<close>).
  \<^item> Numbers (\<open>Js_Input\<close>): \<open>parseInt\<close> reads back \<open>String(i)\<close> of every integer of
    magnitude below \<open>2^53\<close> (C27) and hexadecimal numerals after \<open>0x\<close> (C28), both from
    one round-trip lemma of the radix notation \<open>radix_string\<close> for every radix from 2
    to 36. Below \<open>2^53\<close> the Number value is the mathematical value and no larger
    numeral rounds onto it (C29). Every output length the script hands to the library,
    in the \<open>new RNG\<close> options and in every \<open>updateConfig\<close>, is a double (C30): an
    answer such as \<open>9007199254740993\<close> reaches it rounded.
  The component theories hold the shared lemmas: the stage characterisations and the
  loop invariant \<open>loop_inv\<close> with its preservation (\<open>Cli\<close>), the stage-wise refinement,
  confirmation and progress lemmas and the invariant rule \<open>action_loop_rule\<close> that
  carries every property of the loop (\<open>Protocol\<close>), the branches of the bootstrap and
  of an iteration and the growth and cost of a trace (\<open>Session\<close>:
  \<open>bootstrap_after_init\<close>, \<open>loop_body_choice\<close>, \<open>generate_action_configures\<close>,
  \<open>loop_body_prefix\<close>, \<open>loop_body_cost\<close>, \<open>main_halt_cases\<close>), the rounding lemmas
  (\<open>Js_Input\<close>: \<open>number_value_small\<close>, \<open>number_value_exact\<close>,
  \<open>number_value_double\<close>), and the evaluation bundle \<open>fake_eval\<close> (\<open>Fake_Executor\<close>).

  \<^bold>\<open>Bounds and termination.\<close> The loop \<open>while (true)\<close> has no exit; it is modelled
  over a finite list of operator answers, and every iteration reads at least one, so
  \<open>action_loop\<close> is total by the measure \<open>length\<close> of the remaining answers (its
  \<open>termination\<close> proof). An unbounded session is covered by its finite prefixes: when
  the answers run out the script is \<open>Awaiting\<close> at a prompt, which is the script's real
  state then. C22 is the variant behind the \<open>termination\<close> proof, stated of the
  code. There is no clock: a wait is the event \<open>Slept 120000\<close>
  (\<open>confirmation_ms\<close>, line 111), and the discipline is stated on the order of events;
  the time bound C24 is the sum of these events. The bounds C23 and C24 are reached by
  a run of successful Generate actions (\<open>main_bounds_reached\<close>, on the fake chain).

  \<^bold>\<open>Not modelled.\<close> The internals of \<open>rng-ts-lib\<close> (an external library: any executor
  is allowed); a rejected promise of the library (only its result objects are
  modelled); the text \<open>JSON.stringify\<close> makes of a mint error (the error value is kept
  as it is); of the JavaScript numbers, \<open>Infinity\<close> (a numeral of value \<open>2^1024 - 2^970\<close> or more,
  309 digits, which \<open>parse_int\<close> rounds to a finite integer instead) and \<open>-0\<close> (read as
  \<open>0\<close>, which no comparison of the script distinguishes); whitespace beyond ASCII in
  \<open>trim\<close> and \<open>parseInt\<close>.

  \<^bold>\<open>Plan for further work.\<close> \<open>Infinity\<close> for numerals beyond the largest double.
\<close>

lemma exec_ok_fake: "exec_ok fake_exec"
proof -
  have "submits c \<Longrightarrow> tx_of (fst (fake_exec c x)) \<noteq> None" for c x
    by (cases c) (simp_all add: tx_of_def tx_result_def Let_def)
  then show ?thesis by (simp add: exec_ok_def)
qed

lemma exec_ok_unitless: "exec_ok unitless_mint"
proof -
  have "submits c \<Longrightarrow> tx_of (fst (unitless_mint c x)) \<noteq> None" for c x
    by (cases c) (simp_all add: unitless_mint_def tx_of_def tx_result_def Let_def)
  then show ?thesis by (simp add: exec_ok_def)
qed

lemma mint_contract_fake: "mint_contract fake_exec"
  by (simp add: mint_contract_def tx_of_def)

lemma init_contract_fake: "init_contract fake_exec"
  by (simp add: init_contract_def tx_result_def)

text \<open>
  C1. Refinement: every run of the script, against any executor whose \<open>init\<close> never
  answers an empty transaction id, is a run of the abstract orchestration protocol:
  mint, init, register with the init transaction and the minted unit, then
  reconfigure/init/update cycles each consuming the previous head, and queries of the
  current head. A crash is the protocol's halt after a failed call; a script waiting
  for the operator is in the phase \<open>Registered\<close> with its \<open>BASE_ORACLEDID.unit\<close> and
  \<open>CURR_ORACLE_UPDATED_TX\<close>.
\<close>

theorem main_refines_protocol:
  assumes "init_contract ex"
  shows "proto_run Unstarted (events (halt_world (main ex new_rng bp name inp)))
                   (abs_halt (main ex new_rng bp name inp))"
proof -
  have w0: "run_monitor proto_event Unstarted (events (initial_world new_rng bp)) = Some Unstarted"
    by (simp add: initial_world_def)
  show ?thesis
  proof (cases "bootstrap ex name (initial_world new_rng bp)")
    case (Inl ew)
    then obtain e w where b: "bootstrap ex name (initial_world new_rng bp) = Inl (e, w)"
      by (cases ew) auto
    then show ?thesis
      using bootstrap_proto(1)[OF assms w0 b] by (simp add: main_def proto_run_iff)
  next
    case (Inr vw)
    then obtain w where b: "bootstrap ex name (initial_world new_rng bp) = Inr ((), w)"
      by (cases vw) auto
    from bootstrap_proto(2)[OF assms w0 b] obtain u where
      "run_monitor proto_event Unstarted (events w) = Some (abs_world w)" "loop_inv u w"
      by blast
    with b show ?thesis
      using action_loop_proto[OF assms] by (simp add: main_def proto_run_iff)
  qed
qed

theorem main_refines_protocol_witness:
  "init_contract fake_exec \<and>
   proto_run Unstarted (events (halt_world (main fake_exec new_fake demo_params ''My Oracle'' [''1'', ''8'', ''2''])))
     (abs_halt (main fake_exec new_fake demo_params ''My Oracle'' [''1'', ''8'', ''2'']))"
  using init_contract_fake main_refines_protocol[OF init_contract_fake] by blast

text \<open>
  C2. Confirmation discipline: for every executor and every operator session, no
  executor call starts while a submitted transaction (mint, init, register, update) has
  not been followed by a wait of \<open>confirmation_ms\<close>; a script waiting for the operator
  has no unconfirmed transaction.
\<close>

theorem main_waits_for_confirmation: "halt_waits (main ex new_rng bp name inp)"
proof -
  have w0: "run_monitor wait_event False (events (initial_world new_rng bp)) = Some False"
    by (simp add: initial_world_def)
  show ?thesis
  proof (cases "bootstrap ex name (initial_world new_rng bp)")
    case (Inl ew)
    then obtain e w where b: "bootstrap ex name (initial_world new_rng bp) = Inl (e, w)"
      by (cases ew) auto
    then show ?thesis
      using bootstrap_waits(1)[OF w0 b] by (simp add: main_def)
  next
    case (Inr vw)
    then obtain w where b: "bootstrap ex name (initial_world new_rng bp) = Inr ((), w)"
      by (cases vw) auto
    with bootstrap_waits(2)[OF w0 b] show ?thesis
      by (simp add: main_def action_loop_waits)
  qed
qed

text \<open>
  C3. Happy path of the bootstrap (spec, section 8), for every executor: when the mint
  answers a transaction id, the init a \<open>txHash\<close> \<open>t2\<close>, and the register call, given
  \<open>t2\<close> and the minted unit, a transaction id \<open>t3\<close>, the script enters the action loop
  in exactly this state: the minted unit registered, the head \<open>t3\<close>, and a trace of
  the two console lines and the three calls, each followed by its confirmation wait.
\<close>

theorem bootstrap_happy_path:
  assumes "ex (OracleMint name) (new_rng (rng_config_of bp)) = (r1, x1)" and "tx_of r1 = Some t1"
    and "ex Init x1 = (r2, x2)" and "Option.bind (data r2) txHash = Some t2"
    and "ex (OracleRegister t2 (Option.bind (data r1) oracleDIDUnit)) x2 = (r3, x3)" and "tx_of r3 = Some t3"
  shows "main ex new_rng bp name inp =
           action_loop ex inp
             \<lparr>rng = x3, base_oracledid = Some \<lparr>unit = Option.bind (data r1) oracleDIDUnit, registered = True\<rparr>,
              curr_oracle_updated_tx = Some t3,
              events = init_trace name r1 r2 @
                       [Called (OracleRegister t2 (Option.bind (data r1) oracleDIDUnit)) r3, Slept confirmation_ms]\<rparr>"
  using bootstrap_after_init[where ex = ex and name = name and new_rng = new_rng and bp = bp, OF assms(1-4)] assms(5,6)
  by (simp add: main_def register_stage_def stage_unfold)

theorem bootstrap_happy_path_witness:
  "\<exists>r1 x1 r2 x2 r3 x3.
     fake_exec (OracleMint ''My Oracle'') (new_fake (rng_config_of demo_params)) = (r1, x1) \<and>
     tx_of r1 = Some ''T1'' \<and> fake_exec Init x1 = (r2, x2) \<and> Option.bind (data r2) txHash = Some ''T2'' \<and>
     fake_exec (OracleRegister ''T2'' (Option.bind (data r1) oracleDIDUnit)) x2 = (r3, x3) \<and>
     tx_of r3 = Some ''T3'' \<and>
     main fake_exec new_fake demo_params ''My Oracle'' [] =
       action_loop fake_exec []
         \<lparr>rng = x3, base_oracledid = Some \<lparr>unit = Option.bind (data r1) oracleDIDUnit, registered = True\<rparr>,
          curr_oracle_updated_tx = Some ''T3'',
          events = init_trace ''My Oracle'' r1 r2 @
                   [Called (OracleRegister ''T2'' (Option.bind (data r1) oracleDIDUnit)) r3, Slept confirmation_ms]\<rparr>"
proof -
  define x0 where "x0 = new_fake (rng_config_of demo_params)"
  define r1 where "r1 = fst (fake_exec (OracleMint ''My Oracle'') x0)"
  define x1 where "x1 = snd (fake_exec (OracleMint ''My Oracle'') x0)"
  define r2 where "r2 = fst (fake_exec Init x1)"
  define x2 where "x2 = snd (fake_exec Init x1)"
  define r3 where "r3 = fst (fake_exec (OracleRegister ''T2'' (Option.bind (data r1) oracleDIDUnit)) x2)"
  define x3 where "x3 = snd (fake_exec (OracleRegister ''T2'' (Option.bind (data r1) oracleDIDUnit)) x2)"
  have e: "fake_exec (OracleMint ''My Oracle'') (new_fake (rng_config_of demo_params)) = (r1, x1)"
    "fake_exec Init x1 = (r2, x2)"
    "fake_exec (OracleRegister ''T2'' (Option.bind (data r1) oracleDIDUnit)) x2 = (r3, x3)"
    by (simp_all only: x0_def r1_def x1_def r2_def x2_def r3_def x3_def prod.collapse)
  have t: "tx_of r1 = Some ''T1''" "Option.bind (data r2) txHash = Some ''T2''" "tx_of r3 = Some ''T3''"
    by (simp_all add: r3_def x2_def r2_def x1_def r1_def x0_def fake_eval)
  have c: "main fake_exec new_fake demo_params ''My Oracle'' [] =
       action_loop fake_exec []
         \<lparr>rng = x3, base_oracledid = Some \<lparr>unit = Option.bind (data r1) oracleDIDUnit, registered = True\<rparr>,
          curr_oracle_updated_tx = Some ''T3'',
          events = init_trace ''My Oracle'' r1 r2 @
                   [Called (OracleRegister ''T2'' (Option.bind (data r1) oracleDIDUnit)) r3, Slept confirmation_ms]\<rparr>"
    by (rule bootstrap_happy_path[where ex = fake_exec and new_rng = new_fake and bp = demo_params,
                                    OF e(1) t(1) e(2) t(2) e(3) t(3)])
  show ?thesis by (intro exI conjI, (rule e t c)+)
qed

text \<open>
  C4. Liveness of the loop: against an executor that always succeeds, the script never
  stops by itself; whatever the operator answers, it ends waiting for the next answer.
\<close>

theorem main_never_stops:
  assumes "exec_ok ex"
  shows "\<exists>w. main ex new_rng bp name inp = Awaiting w"
proof -
  obtain w u where b: "bootstrap ex name (initial_world new_rng bp) = Inr ((), w)" "loop_inv u w"
    by (rule bootstrap_ok[OF assms])
  then show ?thesis
    using action_loop_ok[OF assms b(2)] by (simp add: main_def)
qed

theorem main_never_stops_witness:
  "exec_ok fake_exec \<and> (\<exists>w. main fake_exec new_fake demo_params ''My Oracle'' [''7'', ''1''] = Awaiting w)"
  using exec_ok_fake main_never_stops[OF exec_ok_fake] by blast

text \<open>
  C5. Identity invariant: once bootstrap has registered the identity, no iteration of the
  loop, whatever the operator answers and the executor returns, changes the unit or the
  registered flag, or leaves \<open>CURR_ORACLE_UPDATED_TX\<close> falsy; this holds also where the
  loop stops, by a crash or waiting for input.
\<close>

theorem action_loop_keeps_identity:
  "loop_inv u w \<Longrightarrow> loop_inv u (halt_world (action_loop ex inp w))"
  by (rule action_loop_halt_inv)

theorem action_loop_keeps_identity_witness:
  "loop_inv (Some ''U1'') demo_registered \<and>
   loop_inv (Some ''U1'') (halt_world (action_loop fake_exec [''2'', ''1'', ''4'', ''x''] demo_registered))"
proof -
  have inv: "loop_inv (Some ''U1'') demo_registered"
    by (simp add: fake_eval loop_inv_def)
  show ?thesis using inv action_loop_keeps_identity[OF inv] by blast
qed

text \<open>
  C6. Single head: a Generate iteration reconfigures the output length with the second
  answer, calls \<open>init\<close>, waits, calls \<open>update\<close> with the new init transaction, the
  registered unit and the current head, waits, and makes the transaction id the update
  returned the new head, and nothing else.
\<close>

theorem generate_sets_new_head:
  assumes "loop_inv u w" and "curr_oracle_updated_tx w = Some h" and "parse_int a = Some 1"
    and "loop_body ex (a # l # inp) w = Inr (inp', w')"
  shows "inp' = inp \<and>
    (\<exists>r0 r1 r2 t t'.
       events w' = events w @ [Called (UpdateConfig ''rngOutputLen'' (parse_int l)) r0,
                               Called Init r1, Slept confirmation_ms,
                               Called (OracleUpdate t u h) r2, Slept confirmation_ms] \<and>
       Option.bind (data r1) txHash = Some t \<and> tx_of r2 = Some t' \<and>
       curr_oracle_updated_tx w' = Some t' \<and> base_oracledid w' = base_oracledid w)"
proof -
  from assms(1,2) have h: "h \<noteq> []" by (simp add: loop_inv_def)
  from assms(4) have g: "generate_action ex h (l # inp) w = Inr (inp', w')"
    by (simp add: loop_body_dispatch[OF assms(2) h] assms(3))
  then obtain t w2 where
    i: "rng_init_stage ex (snd (call_rng ex (UpdateConfig ''rngOutputLen'' (parse_int l)) w)) = Inr (t, w2)"
    and u: "update_stage ex t h w2 = Inr ((), w')" and "inp' = inp"
    by (auto simp: generate_action_def Let_def split: sum.splits prod.splits)
  with assms(1) show ?thesis
    by (auto simp: update_stage_def stage_unfold loop_inv_def split: option.splits
             dest!: rng_init_stage_Inr)
qed

theorem generate_sets_new_head_witness:
  "loop_inv (Some ''U1'') demo_registered \<and>
   curr_oracle_updated_tx demo_registered = Some ''T3'' \<and> parse_int ''1'' = Some 1 \<and>
   loop_body fake_exec [''1'', ''8''] demo_registered =
     Inr (fst (projr (loop_body fake_exec [''1'', ''8''] demo_registered)),
          snd (projr (loop_body fake_exec [''1'', ''8''] demo_registered))) \<and>
   fst (projr (loop_body fake_exec [''1'', ''8''] demo_registered)) = []"
proof -
  have a: "loop_inv (Some ''U1'') demo_registered" "curr_oracle_updated_tx demo_registered = Some ''T3''"
    "parse_int ''1'' = Some 1"
    by (simp_all add: fake_eval loop_inv_def)
  have b: "loop_body fake_exec [''1'', ''8''] demo_registered =
     Inr (fst (projr (loop_body fake_exec [''1'', ''8''] demo_registered)),
          snd (projr (loop_body fake_exec [''1'', ''8''] demo_registered)))"
    by (simp add: fake_eval)
  show ?thesis using a b generate_sets_new_head[OF a b] by blast
qed

text \<open>
  C7. Query: with the identity registered and head \<open>h\<close>, an answer that parses to 2
  calls \<open>query(h)\<close>, prints \<open>Random Number from Oracle: \<close> followed by the returned
  output (\<open>undefined\<close> when the result has none), and changes neither the head nor
  the identity; the loop goes on with the next answer.
\<close>

theorem query_keeps_head:
  assumes "loop_inv u w" and "curr_oracle_updated_tx w = Some h" and "parse_int a = Some 2"
  shows "loop_body ex (a # inp) w =
           Inr (inp, w\<lparr>rng := snd (ex (OracleQuery h) (rng w)),
                       events := events w @
                         [Called (OracleQuery h) (fst (ex (OracleQuery h) (rng w))),
                          Logged (''Random Number from Oracle: '' @
                                  js_template (Option.bind (data (fst (ex (OracleQuery h) (rng w)))) rngOutput))]\<rparr>)"
proof -
  from assms(1,2) have h: "h \<noteq> []" by (simp add: loop_inv_def)
  show ?thesis
    by (simp add: loop_body_dispatch[OF assms(2) h] assms(3) query_action_def stage_unfold)
qed

theorem query_keeps_head_witness:
  "loop_inv (Some ''U1'') demo_registered \<and>
   curr_oracle_updated_tx demo_registered = Some ''T3'' \<and> parse_int ''2'' = Some 2 \<and>
   loop_body fake_exec [''2''] demo_registered =
     Inr ([], demo_registered\<lparr>events := events demo_registered @
              [Called (OracleQuery ''T3'') (fst (fake_exec (OracleQuery ''T3'') (rng demo_registered))),
               Logged ''Random Number from Oracle: 42'']\<rparr>)"
proof -
  have a: "loop_inv (Some ''U1'') demo_registered" "curr_oracle_updated_tx demo_registered = Some ''T3''"
    "parse_int ''2'' = Some 2"
    by (simp_all add: fake_eval loop_inv_def)
  have o: "Option.bind (data (fst (fake_exec (OracleQuery ''T3'') (rng demo_registered)))) rngOutput = Some ''42''"
    by (simp add: fake_eval)
  have s: "snd (fake_exec (OracleQuery ''T3'') (rng demo_registered)) = rng demo_registered"
    by (simp add: fake_eval)
  show ?thesis using a query_keeps_head[OF a, of fake_exec "[]"] o s by (simp add: eq_char_of_iff)
qed

text \<open>
  C8. An answer that parses to neither 1 nor 2 (including \<open>NaN\<close>) does nothing: no
  call, no output, no change of state; the loop reads the next answer.
\<close>

theorem unrecognized_choice_noop:
  assumes "loop_inv u w" and "parse_int a \<noteq> Some 1" and "parse_int a \<noteq> Some 2"
  shows "loop_body ex (a # inp) w = Inr (inp, w)"
proof -
  from assms(1) obtain h where h: "curr_oracle_updated_tx w = Some h" "h \<noteq> []"
    by (auto simp: loop_inv_def js_truthy_iff)
  with assms(2,3) show ?thesis by (simp add: loop_body_dispatch)
qed

theorem unrecognized_choice_noop_witness:
  "loop_inv (Some ''U1'') demo_registered \<and> parse_int ''Generate'' \<noteq> Some 1 \<and>
   parse_int ''Generate'' \<noteq> Some 2 \<and>
   loop_body fake_exec [''Generate'', ''2''] demo_registered = Inr ([''2''], demo_registered)"
proof -
  have a: "loop_inv (Some ''U1'') demo_registered" "parse_int ''Generate'' \<noteq> Some 1"
    "parse_int ''Generate'' \<noteq> Some 2"
    by (simp_all add: fake_eval loop_inv_def)
  show ?thesis using a unrecognized_choice_noop[OF a] by blast
qed

text \<open>
  C9. Fatal mint failure: if the mint call returns no transaction id, the script throws
  right after it with the library's error; nothing else is called, nothing is waited
  for, and no identity or head is recorded.
\<close>

theorem bootstrap_mint_failure:
  assumes "tx_of (fst (ex (OracleMint name) (new_rng (rng_config_of bp)))) = None"
  shows "main ex new_rng bp name inp =
           Crashed (MintError (error (fst (ex (OracleMint name) (new_rng (rng_config_of bp))))))
             \<lparr>rng = snd (ex (OracleMint name) (new_rng (rng_config_of bp))),
              base_oracledid = None, curr_oracle_updated_tx = None,
              events = [Logged ''Creating Oracle DID for you'',
                        Called (OracleMint name) (fst (ex (OracleMint name) (new_rng (rng_config_of bp))))]\<rparr>"
  using assms by (simp add: main_def bootstrap_def mint_stage_def initial_world_def stage_unfold)

theorem bootstrap_mint_failure_witness:
  "tx_of (fst (failing_at (\<lambda>c. c = OracleMint ''My Oracle'') (OracleMint ''My Oracle'')
                 (new_fake (rng_config_of demo_params)))) = None \<and>
   main (failing_at (\<lambda>c. c = OracleMint ''My Oracle'')) new_fake demo_params ''My Oracle'' [''1''] =
     Crashed (MintError (Some ''rejected''))
       \<lparr>rng = new_fake (rng_config_of demo_params), base_oracledid = None, curr_oracle_updated_tx = None,
        events = [Logged ''Creating Oracle DID for you'', Called (OracleMint ''My Oracle'') rejected]\<rparr>"
proof -
  have a: "tx_of (fst (failing_at (\<lambda>c. c = OracleMint ''My Oracle'') (OracleMint ''My Oracle'')
                 (new_fake (rng_config_of demo_params)))) = None"
    by (simp add: failing_at_def rejected_def tx_of_def)
  show ?thesis
    using a bootstrap_mint_failure[where ex = "failing_at (\<lambda>c. c = OracleMint ''My Oracle'')"
        and name = "''My Oracle''" and new_rng = new_fake and bp = demo_params and inp = "[''1'']", OF a]
    by (simp add: failing_at_def rejected_def)
qed

text \<open>
  C10. Fatal registration failure (spec, section 8), for every executor: when the mint
  and the init pass and the register call answers no transaction id, the script throws
  right after that call with its error, whatever the operator would answer next: the
  identity stays unregistered, no head is held, nothing is waited for, and the action
  loop is never entered.
\<close>

theorem register_failure_scenario:
  assumes "ex (OracleMint name) (new_rng (rng_config_of bp)) = (r1, x1)" and "tx_of r1 = Some t1"
    and "ex Init x1 = (r2, x2)" and "Option.bind (data r2) txHash = Some t2"
    and "ex (OracleRegister t2 (Option.bind (data r1) oracleDIDUnit)) x2 = (r3, x3)" and "tx_of r3 = None"
  shows "main ex new_rng bp name inp =
           Crashed (RegisterError (error r3))
             \<lparr>rng = x3, base_oracledid = Some \<lparr>unit = Option.bind (data r1) oracleDIDUnit, registered = False\<rparr>,
              curr_oracle_updated_tx = None,
              events = init_trace name r1 r2 @ [Called (OracleRegister t2 (Option.bind (data r1) oracleDIDUnit)) r3]\<rparr>"
  using bootstrap_after_init[where ex = ex and name = name and new_rng = new_rng and bp = bp, OF assms(1-4)] assms(5,6)
  by (simp add: main_def register_stage_def stage_unfold)

theorem register_failure_scenario_witness:
  "\<exists>r1 x1 r2 x2 r3 x3.
     failing_at (\<lambda>c. case c of OracleRegister _ _ \<Rightarrow> True | _ \<Rightarrow> False) (OracleMint ''My Oracle'')
       (new_fake (rng_config_of demo_params)) = (r1, x1) \<and>
     tx_of r1 = Some ''T1'' \<and>
     failing_at (\<lambda>c. case c of OracleRegister _ _ \<Rightarrow> True | _ \<Rightarrow> False) Init x1 = (r2, x2) \<and>
     Option.bind (data r2) txHash = Some ''T2'' \<and>
     failing_at (\<lambda>c. case c of OracleRegister _ _ \<Rightarrow> True | _ \<Rightarrow> False)
       (OracleRegister ''T2'' (Option.bind (data r1) oracleDIDUnit)) x2 = (r3, x3) \<and>
     tx_of r3 = None \<and>
     main (failing_at (\<lambda>c. case c of OracleRegister _ _ \<Rightarrow> True | _ \<Rightarrow> False))
       new_fake demo_params ''My Oracle'' [''2'', ''1'', ''8''] =
       Crashed (RegisterError (error r3))
         \<lparr>rng = x3, base_oracledid = Some \<lparr>unit = Option.bind (data r1) oracleDIDUnit, registered = False\<rparr>,
          curr_oracle_updated_tx = None,
          events = init_trace ''My Oracle'' r1 r2 @
                   [Called (OracleRegister ''T2'' (Option.bind (data r1) oracleDIDUnit)) r3]\<rparr>"
proof -
  define F where "F = failing_at (\<lambda>c. case c of OracleRegister _ _ \<Rightarrow> True | _ \<Rightarrow> False)"
  define x0 where "x0 = new_fake (rng_config_of demo_params)"
  define r1 where "r1 = fst (F (OracleMint ''My Oracle'') x0)"
  define x1 where "x1 = snd (F (OracleMint ''My Oracle'') x0)"
  define r2 where "r2 = fst (F Init x1)"
  define x2 where "x2 = snd (F Init x1)"
  define r3 where "r3 = fst (F (OracleRegister ''T2'' (Option.bind (data r1) oracleDIDUnit)) x2)"
  define x3 where "x3 = snd (F (OracleRegister ''T2'' (Option.bind (data r1) oracleDIDUnit)) x2)"
  have e: "F (OracleMint ''My Oracle'') (new_fake (rng_config_of demo_params)) = (r1, x1)"
    "F Init x1 = (r2, x2)"
    "F (OracleRegister ''T2'' (Option.bind (data r1) oracleDIDUnit)) x2 = (r3, x3)"
    by (simp_all only: x0_def r1_def x1_def r2_def x2_def r3_def x3_def prod.collapse)
  have t: "tx_of r1 = Some ''T1''" "Option.bind (data r2) txHash = Some ''T2''" "tx_of r3 = None"
    by (simp_all add: F_def r3_def x2_def r2_def x1_def r1_def x0_def fake_eval)
  have c: "main F new_fake demo_params ''My Oracle'' [''2'', ''1'', ''8''] =
       Crashed (RegisterError (error r3))
         \<lparr>rng = x3, base_oracledid = Some \<lparr>unit = Option.bind (data r1) oracleDIDUnit, registered = False\<rparr>,
          curr_oracle_updated_tx = None,
          events = init_trace ''My Oracle'' r1 r2 @
                   [Called (OracleRegister ''T2'' (Option.bind (data r1) oracleDIDUnit)) r3]\<rparr>"
    by (rule register_failure_scenario[where ex = F and new_rng = new_fake and bp = demo_params,
                                         OF e(1) t(1) e(2) t(2) e(3) t(3)])
  show ?thesis unfolding F_def[symmetric] by (intro exI conjI, (rule e t c)+)
qed

text \<open>
  C11. A failed update terminates the whole process, for every executor (spec,
  section 7, asks for the loop to survive): when a Generate action's init passes and
  its update call answers no transaction id, the script throws right after the update
  with its error; the answers the operator would give next are never read, and the
  head stays the one the update was given.
\<close>

theorem generate_failure_terminates:
  assumes "loop_inv u w" and "curr_oracle_updated_tx w = Some h" and "parse_int a = Some 1"
    and "ex (UpdateConfig ''rngOutputLen'' (parse_int l)) (rng w) = (r0, x0)"
    and "ex Init x0 = (r1, x1)" and "Option.bind (data r1) txHash = Some t"
    and "ex (OracleUpdate t u h) x1 = (r2, x2)" and "tx_of r2 = None"
  shows "action_loop ex (a # l # inp) w =
           Crashed (UpdateError (error r2))
             (w\<lparr>rng := x2,
                events := events w @ [Called (UpdateConfig ''rngOutputLen'' (parse_int l)) r0,
                                      Called Init r1, Slept confirmation_ms,
                                      Called (OracleUpdate t u h) r2]\<rparr>)"
proof -
  from assms(1,2) have h: "h \<noteq> []" and b: "base_oracledid w = Some \<lparr>unit = u, registered = True\<rparr>"
    by (simp_all add: loop_inv_def)
  from assms(6) obtain d where "data r1 = Some d" "txHash d = Some t"
    by (auto simp: bind_eq_Some_conv)
  with assms(3-5,7,8) b show ?thesis
    by (simp add: action_loop_Cons loop_body_dispatch[OF assms(2) h] generate_action_def
                  rng_init_stage_def update_stage_def stage_unfold)
qed

theorem generate_failure_terminates_witness:
  "\<exists>r0 x0 r1 x1 r2 x2.
     loop_inv (Some ''U1'') demo_registered \<and> curr_oracle_updated_tx demo_registered = Some ''T3'' \<and>
     parse_int ''1'' = Some 1 \<and>
     failing_at (\<lambda>c. case c of OracleUpdate _ _ _ \<Rightarrow> True | _ \<Rightarrow> False)
       (UpdateConfig ''rngOutputLen'' (parse_int ''8'')) (rng demo_registered) = (r0, x0) \<and>
     failing_at (\<lambda>c. case c of OracleUpdate _ _ _ \<Rightarrow> True | _ \<Rightarrow> False) Init x0 = (r1, x1) \<and>
     Option.bind (data r1) txHash = Some ''T4'' \<and>
     failing_at (\<lambda>c. case c of OracleUpdate _ _ _ \<Rightarrow> True | _ \<Rightarrow> False)
       (OracleUpdate ''T4'' (Some ''U1'') ''T3'') x1 = (r2, x2) \<and>
     tx_of r2 = None \<and>
     action_loop (failing_at (\<lambda>c. case c of OracleUpdate _ _ _ \<Rightarrow> True | _ \<Rightarrow> False))
       [''1'', ''8'', ''2''] demo_registered =
       Crashed (UpdateError (error r2))
         (demo_registered\<lparr>rng := x2,
            events := events demo_registered @
              [Called (UpdateConfig ''rngOutputLen'' (parse_int ''8'')) r0, Called Init r1,
               Slept confirmation_ms, Called (OracleUpdate ''T4'' (Some ''U1'') ''T3'') r2]\<rparr>)"
proof -
  define F where "F = failing_at (\<lambda>c. case c of OracleUpdate _ _ _ \<Rightarrow> True | _ \<Rightarrow> False)"
  have a: "loop_inv (Some ''U1'') demo_registered" "curr_oracle_updated_tx demo_registered = Some ''T3''"
    "parse_int ''1'' = Some 1"
    by (simp_all add: fake_eval loop_inv_def)
  define r0 where "r0 = fst (F (UpdateConfig ''rngOutputLen'' (parse_int ''8'')) (rng demo_registered))"
  define x0 where "x0 = snd (F (UpdateConfig ''rngOutputLen'' (parse_int ''8'')) (rng demo_registered))"
  define r1 where "r1 = fst (F Init x0)"
  define x1 where "x1 = snd (F Init x0)"
  define r2 where "r2 = fst (F (OracleUpdate ''T4'' (Some ''U1'') ''T3'') x1)"
  define x2 where "x2 = snd (F (OracleUpdate ''T4'' (Some ''U1'') ''T3'') x1)"
  have e: "F (UpdateConfig ''rngOutputLen'' (parse_int ''8'')) (rng demo_registered) = (r0, x0)"
    "F Init x0 = (r1, x1)" "F (OracleUpdate ''T4'' (Some ''U1'') ''T3'') x1 = (r2, x2)"
    by (simp_all only: r0_def x0_def r1_def x1_def r2_def x2_def prod.collapse)
  have t: "Option.bind (data r1) txHash = Some ''T4''" "tx_of r2 = None"
    by (simp_all add: F_def r2_def x1_def r1_def x0_def fake_eval)
  have c: "action_loop F [''1'', ''8'', ''2''] demo_registered =
       Crashed (UpdateError (error r2))
         (demo_registered\<lparr>rng := x2,
            events := events demo_registered @
              [Called (UpdateConfig ''rngOutputLen'' (parse_int ''8'')) r0, Called Init r1,
               Slept confirmation_ms, Called (OracleUpdate ''T4'' (Some ''U1'') ''T3'') r2]\<rparr>)"
    by (rule generate_failure_terminates[OF a e(1) e(2) t(1) e(3) t(2)])
  show ?thesis unfolding F_def[symmetric] by (intro exI conjI, (rule a e t c)+)
qed

text \<open>
  C12. The unit of the minted identity is not checked (line 115): against any executor
  whose every transaction succeeds but whose mint answers no \<open>oracleDIDUnit\<close>, the
  script never throws for it; it registers the identity with an undefined unit and
  keeps it, registered, to the end of every run.
\<close>

theorem mint_unit_unchecked:
  assumes "exec_ok ex" and "\<forall>n x. Option.bind (data (fst (ex (OracleMint n) x))) oracleDIDUnit = None"
  shows "base_oracledid (halt_world (main ex new_rng bp name inp)) = Some \<lparr>unit = None, registered = True\<rparr>"
proof -
  obtain w u where b: "bootstrap ex name (initial_world new_rng bp) = Inr ((), w)" and u: "loop_inv u w"
    by (rule bootstrap_ok[OF assms(1)])
  from bootstrap_minted_unit[OF b] assms(2) u have "u = None" by (simp add: loop_inv_def)
  with action_loop_halt_inv[OF u, of ex inp] b show ?thesis
    by (simp add: main_def loop_inv_def)
qed

theorem mint_unit_unchecked_witness:
  "exec_ok unitless_mint \<and>
   (\<forall>n x. Option.bind (data (fst (unitless_mint (OracleMint n) x))) oracleDIDUnit = None) \<and>
   base_oracledid (halt_world (main unitless_mint new_fake demo_params ''My Oracle'' [''1'', ''8''])) =
     Some \<lparr>unit = None, registered = True\<rparr>"
proof -
  have u: "\<forall>n x. Option.bind (data (fst (unitless_mint (OracleMint n) x))) oracleDIDUnit = None"
    by (simp add: unitless_mint_def tx_result_def)
  show ?thesis using exec_ok_unitless u mint_unit_unchecked[OF exec_ok_unitless u] by blast
qed

text \<open>
  C13. The action choice accepts any answer that starts with the number (line 168), for
  every executor and state: an answer made of whitespace, the decimal notation of an
  integer \<open>c\<close> below \<open>2^53\<close> in magnitude, and anything that is not a digit after it
  (\<open>'1abc'\<close>, \<open>' 2.5'\<close>; for \<open>c = 0\<close> not \<open>x\<close>, which starts a hexadecimal numeral)
  runs exactly what the bare answer \<open>String(c)\<close> runs, and the loop continues the same.
\<close>

theorem choice_prefix_accepted:
  assumes "\<forall>ch \<in> set ws. js_whitespace ch" and "radix_digits 10 s = []"
    and "c \<noteq> 0 \<or> (take 1 s \<noteq> ''x'' \<and> take 1 s \<noteq> ''X'')" and "\<bar>c\<bar> < 2 ^ 53"
  shows "action_loop ex ((ws @ int_string c @ s) # inp) w = action_loop ex (int_string c # inp) w"
proof -
  have "parse_int (ws @ int_string c @ s) = Some c"
    using parse_int_math_int_string[OF assms(1-3)] assms(4) by (simp add: parse_int_def number_value_small)
  moreover have "parse_int (int_string c) = Some c"
    using parse_int_math_int_string[of "[]" "[]" c] assms(4) by (simp add: parse_int_def number_value_small)
  ultimately have "loop_body ex ((ws @ int_string c @ s) # inp) w = loop_body ex (int_string c # inp) w"
    by (intro loop_body_choice) simp
  then show ?thesis by (simp add: action_loop_Cons)
qed

theorem choice_prefix_accepted_witness:
  "list_all js_whitespace [] \<and> radix_digits 10 ''abc'' = [] \<and> (1::int) \<noteq> 0 \<and> \<bar>1::int\<bar> < 2 ^ 53 \<and>
   action_loop fake_exec (([] @ int_string 1 @ ''abc'') # [''8'']) demo_registered =
     action_loop fake_exec (int_string 1 # [''8'']) demo_registered"
proof -
  have a: "\<forall>ch \<in> set []. js_whitespace ch" "radix_digits 10 ''abc'' = []"
    "(1::int) \<noteq> 0 \<or> (take 1 ''abc'' \<noteq> ''x'' \<and> take 1 ''abc'' \<noteq> ''X'')" "\<bar>1::int\<bar> < 2 ^ 53"
    by (simp_all add: digit_value_def)
  show ?thesis using a choice_prefix_accepted[OF a] by simp
qed

text \<open>
  C14. The output length answered in a Generate action is not validated (line 181), for
  every executor and every answer: the script hands \<open>parseInt\<close> of the answer to
  \<open>updateConfig\<close> whatever it is (negative, zero or \<open>NaN\<close>) and calls \<open>init\<close> right
  after it; no answer is refused or asked again.
\<close>

theorem output_length_unvalidated:
  assumes "loop_inv u w" and "curr_oracle_updated_tx w = Some h" and "parse_int a = Some 1"
  shows "\<exists>r0 r1 evs. events (halt_world (action_loop ex (a # l # inp) w)) =
           events w @ Called (UpdateConfig ''rngOutputLen'' (parse_int l)) r0 # Called Init r1 # evs"
proof -
  from assms(1,2) have h: "h \<noteq> []" by (simp add: loop_inv_def)
  have lb: "loop_body ex (a # l # inp) w = generate_action ex h (l # inp) w"
    by (simp add: loop_body_dispatch[OF assms(2) h] assms(3))
  show ?thesis
  proof (cases "generate_action ex h (l # inp) w")
    case (Inl hl)
    with lb generate_action_configures(1)[OF Inl] show ?thesis by (simp add: action_loop_Cons)
  next
    case (Inr p)
    then obtain inp' w' where g: "generate_action ex h (l # inp) w = Inr (inp', w')"
      by (cases p) auto
    from generate_action_configures(2)[OF g] obtain r0 r1 evs where
      e: "events w' = events w @ Called (UpdateConfig ''rngOutputLen'' (parse_int l)) r0 # Called Init r1 # evs"
      by blast
    from action_loop_prefix[of w' ex inp'] obtain zs where
      "events (halt_world (action_loop ex inp' w')) = events w' @ zs"
      by (auto simp: prefix_def)
    with e lb g show ?thesis by (auto simp: action_loop_Cons)
  qed
qed

theorem output_length_unvalidated_witness:
  "loop_inv (Some ''U1'') demo_registered \<and> curr_oracle_updated_tx demo_registered = Some ''T3'' \<and>
   parse_int ''1'' = Some 1 \<and>
   (\<exists>r0 r1 evs. events (halt_world (action_loop fake_exec [''1'', ''-3''] demo_registered)) =
      events demo_registered @ Called (UpdateConfig ''rngOutputLen'' (parse_int ''-3'')) r0 # Called Init r1 # evs)"
proof -
  have a: "loop_inv (Some ''U1'') demo_registered" "curr_oracle_updated_tx demo_registered = Some ''T3''"
    "parse_int ''1'' = Some 1"
    by (simp_all add: fake_eval loop_inv_def)
  show ?thesis using a output_length_unvalidated[OF a, of fake_exec "''-3''" "[]"] by simp
qed

text \<open>
  C15. Single head (spec, section 8): whenever the script waits for the operator, for
  every executor, \<open>CURR_ORACLE_UPDATED_TX\<close> is the transaction id returned by the last
  register or update call of its trace, not by any earlier one.
\<close>

theorem main_head_is_last_tx:
  assumes "main ex new_rng bp name inp = Awaiting w"
  shows "run_monitor head_event None (events w) = Some (curr_oracle_updated_tx w)"
proof -
  have w0: "run_monitor head_event None (events (initial_world new_rng bp)) = Some None"
    by (simp add: initial_world_def)
  obtain w1 where b: "bootstrap ex name (initial_world new_rng bp) = Inr ((), w1)"
    and l: "action_loop ex inp w1 = Awaiting w"
    using assms by (auto simp: main_def split: sum.splits prod.splits)
  show ?thesis
    using action_loop_head[OF bootstrap_head[OF w0 b] l] .
qed

theorem main_head_is_last_tx_witness:
  "main fake_exec new_fake demo_params ''My Oracle'' [''1'', ''8'', ''2'', ''1'', ''3''] =
     Awaiting (halt_world (main fake_exec new_fake demo_params ''My Oracle'' [''1'', ''8'', ''2'', ''1'', ''3''])) \<and>
   run_monitor head_event None
     (events (halt_world (main fake_exec new_fake demo_params ''My Oracle'' [''1'', ''8'', ''2'', ''1'', ''3'']))) =
     Some (Some ''T7'')"
proof -
  have a: "main fake_exec new_fake demo_params ''My Oracle'' [''1'', ''8'', ''2'', ''1'', ''3''] =
     Awaiting (halt_world (main fake_exec new_fake demo_params ''My Oracle'' [''1'', ''8'', ''2'', ''1'', ''3'']))"
    by (simp add: fake_eval)
  have c: "curr_oracle_updated_tx (halt_world (main fake_exec new_fake demo_params ''My Oracle''
             [''1'', ''8'', ''2'', ''1'', ''3''])) = Some ''T7''"
    by (simp add: fake_eval)
  show ?thesis using a c main_head_is_last_tx[OF a] by simp
qed

text \<open>
  C16. The read of \<open>BASE_ORACLEDID.unit\<close> at lines 142 and 207 never meets \<open>null\<close>:
  for every executor and session the script never crashes with that \<open>TypeError\<close>,
  since the mint stage sets the identity before any stage reads it.
\<close>

theorem main_never_null_unit:
  "main ex new_rng bp name inp \<noteq> Crashed (TypeError ''Cannot read properties of null (reading unit)'') w"
proof
  assume a: "main ex new_rng bp name inp = Crashed (TypeError ''Cannot read properties of null (reading unit)'') w"
  show False
  proof (cases "bootstrap ex name (initial_world new_rng bp)")
    case (Inl ew)
    with a show False
      using bootstrap_no_null[of "initial_world new_rng bp" ex name "fst ew" "snd ew"]
      by (auto simp: main_def initial_world_def split: prod.splits)
  next
    case (Inr vw)
    then obtain w1 where b: "bootstrap ex name (initial_world new_rng bp) = Inr ((), w1)"
      by (cases vw) auto
    then obtain u where "loop_inv u w1"
      using bootstrap_inv by blast
    with a b show False
      using action_loop_no_null by (fastforce simp: main_def)
  qed
qed

text \<open>
  C18. Dependency passing and immutability of the identity (spec, section 8), for every
  executor and every operator input, with no contract on the executor: in the trace of
  the script every register and update call is given the unit the mint call returned
  and the raw \<open>txHash\<close> of the init call immediately before it, and every update and
  query call is given the transaction id the last register or update call returned.
\<close>

theorem main_passes_dependencies:
  "run_monitor dep_event dep_start (events (halt_world (main ex new_rng bp name inp))) \<noteq> None"
proof -
  have w0: "run_monitor dep_event dep_start (events (initial_world new_rng bp)) = Some dep_start"
    by (simp add: initial_world_def)
  show ?thesis
  proof (cases "bootstrap ex name (initial_world new_rng bp)")
    case (Inl ew)
    then obtain e w where b: "bootstrap ex name (initial_world new_rng bp) = Inl (e, w)"
      by (cases ew) auto
    then show ?thesis using bootstrap_deps(1)[OF w0 b] by (simp add: main_def)
  next
    case (Inr vw)
    then obtain w where b: "bootstrap ex name (initial_world new_rng bp) = Inr ((), w)"
      by (cases vw) auto
    from bootstrap_deps(2)[OF w0 b] obtain u where
      "loop_inv u w" "run_monitor dep_event dep_start (events w) = Some (dep_loop u w)"
      by blast
    with b show ?thesis using action_loop_deps by (simp add: main_def)
  qed
qed

text \<open>
  C19. The Oracle DID is minted exactly once per run (spec, section 3), and the name is
  asked once: a session makes one \<open>oracle.mint\<close> call as soon as the operator has
  given the eight parameters and the name, none before, and no answer of the action
  loop ever leads to another.
\<close>

theorem session_mints_once:
  "length (filter is_mint (calls_of (session_events (session ex new_rng ans)))) =
     (if 9 \<le> length ans then 1 else 0)"
proof (cases "base_params_of (take 8 ans)")
  case None
  then have "length ans < 8" by (simp add: base_params_of_None)
  then show ?thesis unfolding session_def None by simp
next
  case (Some bp)
  then have "length (take 8 ans) = 8" by (metis base_params_of_None option.distinct(2))
  then have l: "8 \<le> length ans" by simp
  show ?thesis
  proof (cases "drop 8 ans")
    case Nil
    with l have "length ans = 8" by simp
    then show ?thesis
      unfolding session_def Some Nil by (simp add: log_line_def initial_world_def)
  next
    case (Cons name inp)
    then have "9 \<le> length ans" using length_drop[of 8 ans] by simp
    then show ?thesis
      unfolding session_def Some Cons by (simp add: main_mints)
  qed
qed

text \<open>
  C20. The globals agree with each other at every halt, for every executor: the head
  is never the empty string, no head is held without an identity, and the identity is
  registered exactly when a head is held (spec, section 3, monotonic registration and
  the single head).
\<close>

theorem main_globals_wf: "globals_wf (halt_world (main ex new_rng bp name inp))"
proof (rule main_halt_cases)
  fix e w
  assume "bootstrap ex name (initial_world new_rng bp) = Inl (e, w)"
  then show "globals_wf w" by (rule bootstrap_globals[OF refl])
next
  fix v w
  assume "bootstrap ex name (initial_world new_rng bp) = Inr (v, w)"
  from bootstrap_inv[OF this] obtain u where "loop_inv u w" by blast
  then show "globals_wf (halt_world (action_loop ex inp w))"
    by (rule loop_inv_globals[OF action_loop_halt_inv])
qed

text \<open>
  C21. The globals hold values of their declared types: against an executor whose mint
  returns a unit with its transaction id, \<open>BASE_ORACLEDID.unit\<close> is a string (never
  \<open>undefined\<close>) at every halt, besides the agreement of C20.
\<close>

theorem main_globals_typed:
  assumes "mint_contract ex"
  shows "globals_typed (halt_world (main ex new_rng bp name inp))"
proof (rule main_halt_cases)
  fix e w
  assume b: "bootstrap ex name (initial_world new_rng bp) = Inl (e, w)"
  with bootstrap_unit(1)[OF assms refl b] bootstrap_globals[OF refl b] show "globals_typed w"
    by (auto simp: globals_typed_def split: option.split)
next
  fix v w
  assume b: "bootstrap ex name (initial_world new_rng bp) = Inr (v, w)"
  from bootstrap_inv[OF b] obtain u where u: "loop_inv u w" by blast
  with bootstrap_unit(2)[OF assms refl b] have "u \<noteq> None" by (simp add: loop_inv_def)
  with action_loop_halt_inv[OF u, of ex inp]
  show "globals_typed (halt_world (action_loop ex inp w))"
    by (simp add: globals_typed_def loop_inv_globals loop_inv_def)
qed

theorem main_globals_typed_witness:
  "mint_contract fake_exec \<and>
   globals_typed (halt_world (main fake_exec new_fake demo_params ''My Oracle'' [''1'', ''8'']))"
  using mint_contract_fake main_globals_typed[OF mint_contract_fake] by blast

text \<open>
  C22. Termination of \<open>while (true)\<close> over a finite session, and which prompts an
  iteration reads: an iteration that does not halt consumes the choice and, only when
  the choice parses to 1 and a head is held (Generate, line 170), also the output
  length; every other choice consumes the choice alone. So every iteration consumes one
  or two answers, and the loop stops after at most as many iterations as there are.
\<close>

theorem loop_body_consumes:
  "loop_body ex (a # inp) w = Inr (inp', w') \<Longrightarrow>
     (if parse_int a = Some 1 \<and> js_truthy (curr_oracle_updated_tx w) then inp \<noteq> [] \<and> inp' = tl inp
      else inp' = inp)"
  by (auto simp: loop_body_def generate_action_def Let_def js_truthy_iff split: stage_splits)

theorem loop_body_consumes_witness:
  "loop_body fake_exec [''1'', ''8'', ''2''] demo_registered =
     Inr ([''2''], snd (projr (loop_body fake_exec [''1'', ''8'', ''2''] demo_registered))) \<and>
   parse_int ''1'' = Some 1 \<and> js_truthy (curr_oracle_updated_tx demo_registered) \<and>
   [''8'', ''2''] \<noteq> [] \<and> [''2''] = tl [''8'', ''2'']"
proof -
  have b: "loop_body fake_exec (''1'' # [''8'', ''2'']) demo_registered =
     Inr ([''2''], snd (projr (loop_body fake_exec [''1'', ''8'', ''2''] demo_registered)))"
    by (simp add: fake_eval)
  have a: "parse_int ''1'' = Some 1" "js_truthy (curr_oracle_updated_tx demo_registered)"
    by (simp_all add: fake_eval)
  show ?thesis using b a loop_body_consumes[OF b] by simp
qed

text \<open>
  C23. Bound on the executor calls of a run: bootstrap makes three, a Generate
  iteration three for its two answers, a Query one for its answer, so a run given
  \<open>n\<close> loop answers makes at most \<open>3 + 3n/2\<close> calls, for every executor. The bound is
  reached by a session of Generate actions only.
\<close>

theorem main_calls_bound:
  "2 * length (calls_of (events (halt_world (main ex new_rng bp name inp)))) \<le> 6 + 3 * length inp"
proof (rule main_halt_cases)
  fix e w
  assume "bootstrap ex name (initial_world new_rng bp) = Inl (e, w)"
  from bootstrap_cost(1)[OF this] show "2 * length (calls_of (events w)) \<le> 6 + 3 * length inp"
    by (simp add: initial_world_def)
next
  fix v w
  assume "bootstrap ex name (initial_world new_rng bp) = Inr (v, w)"
  from bootstrap_cost(2)[OF this] have "length (calls_of (events w)) \<le> 3"
    by (simp add: initial_world_def)
  with action_loop_cost[of ex inp w]
  show "2 * length (calls_of (events (halt_world (action_loop ex inp w)))) \<le> 6 + 3 * length inp"
    by linarith
qed

text \<open>
  C24. Bound on the confirmation time of a run: every wait is \<open>sleep(120 * 1000)\<close>,
  bootstrap waits three times and every loop answer leads to at most one wait, so a
  run given \<open>n\<close> loop answers spends at most \<open>120000 (3 + n)\<close> milliseconds waiting.
\<close>

theorem main_wait_bound:
  "sum_list (slept_of (events (halt_world (main ex new_rng bp name inp)))) \<le> confirmation_ms * (3 + length inp)"
proof (rule main_halt_cases)
  fix e w
  assume "bootstrap ex name (initial_world new_rng bp) = Inl (e, w)"
  from bootstrap_cost(1)[OF this]
  show "sum_list (slept_of (events w)) \<le> confirmation_ms * (3 + length inp)"
    by (simp add: initial_world_def algebra_simps)
next
  fix v w
  assume "bootstrap ex name (initial_world new_rng bp) = Inr (v, w)"
  from bootstrap_cost(2)[OF this] have "sum_list (slept_of (events w)) \<le> 3 * confirmation_ms"
    by (simp add: initial_world_def)
  with action_loop_cost[of ex inp w]
  show "sum_list (slept_of (events (halt_world (action_loop ex inp w)))) \<le> confirmation_ms * (3 + length inp)"
    by (simp add: algebra_simps)
qed

text \<open>
  C25. Every failure is fatal and reported where it happens (spec, sections 4.1 and 7),
  for every executor: when the script stops with an error, the last event of its trace
  is the call that failed, and the error carries that call's \<open>error\<close>; the only other
  error is the \<open>TypeError\<close> of \<open>txHash.slice\<close> after an init that answered a payload
  without \<open>txHash\<close>. Nothing is called, waited for or printed after a failure.
\<close>

theorem main_crash_explained:
  assumes "main ex new_rng bp name inp = Crashed e w"
  shows "crash_explained e w"
proof (cases "bootstrap ex name (initial_world new_rng bp)")
  case (Inl ew)
  then obtain e' w' where b: "bootstrap ex name (initial_world new_rng bp) = Inl (e', w')"
    by (cases ew) auto
  with assms bootstrap_crash[OF refl b] show ?thesis by (simp add: main_def)
next
  case (Inr vw)
  then obtain v w' where b: "bootstrap ex name (initial_world new_rng bp) = Inr (v, w')"
    by (cases vw) auto
  from bootstrap_inv[OF b] obtain u where "loop_inv u w'" by blast
  with assms b show ?thesis by (simp add: main_def action_loop_crash)
qed

theorem main_crash_explained_witness:
  "main (failing_at (\<lambda>c. c = Init)) new_fake demo_params ''My Oracle'' [] =
     Crashed (InitError (Some ''rejected''))
       (halt_world (main (failing_at (\<lambda>c. c = Init)) new_fake demo_params ''My Oracle'' [])) \<and>
   crash_explained (InitError (Some ''rejected''))
     (halt_world (main (failing_at (\<lambda>c. c = Init)) new_fake demo_params ''My Oracle'' []))"
proof -
  have a: "main (failing_at (\<lambda>c. c = Init)) new_fake demo_params ''My Oracle'' [] =
     Crashed (InitError (Some ''rejected''))
       (halt_world (main (failing_at (\<lambda>c. c = Init)) new_fake demo_params ''My Oracle'' []))"
    by (simp add: fake_eval)
  show ?thesis using a main_crash_explained[OF a] by blast
qed

text \<open>
  C26. Refinement of the ledger (spec, sections 3 and 4.1), for every executor whose
  state refines the ledger of the specification: whenever the script holds a head,
  whether it waits for the operator or has stopped on a failed action, its head is the
  last transaction of the chain of the minted identity, a value is published under it,
  and every registration and update extended the chain from its last head, so the chain
  never branched. A failed update changes neither the chain nor the script's head.
\<close>

theorem main_ledger_head:
  assumes "ledger_refines \<alpha> ex"
    and "curr_oracle_updated_tx (halt_world (main ex new_rng bp name inp)) \<noteq> None"
  shows "ledger_agrees \<alpha> (halt_world (main ex new_rng bp name inp))"
proof -
  have "curr_oracle_updated_tx (halt_world (main ex new_rng bp name inp)) \<noteq> None \<longrightarrow>
          ledger_agrees \<alpha> (halt_world (main ex new_rng bp name inp))"
  proof (rule main_halt_cases)
    fix e w
    assume "bootstrap ex name (initial_world new_rng bp) = Inl (e, w)"
    from bootstrap_crash_no_head[OF this]
    show "curr_oracle_updated_tx w \<noteq> None \<longrightarrow> ledger_agrees \<alpha> w"
      by (simp add: initial_world_def)
  next
    fix v w
    assume b: "bootstrap ex name (initial_world new_rng bp) = Inr (v, w)"
    from bootstrap_inv[OF b] obtain u where u: "loop_inv u w" by blast
    have "ledger_agrees \<alpha> (halt_world (action_loop ex inp w))"
      using u bootstrap_ledger[OF assms(1) b]
      by (rule action_loop_rule[where P = "\<lambda>_ w. loop_inv u w \<and> ledger_agrees \<alpha> w", OF conjI])
         (auto intro: loop_body_inv loop_body_ledger[OF assms(1)] loop_body_ledger_halt[OF assms(1)])
    then show "curr_oracle_updated_tx (halt_world (action_loop ex inp w)) \<noteq> None \<longrightarrow>
                 ledger_agrees \<alpha> (halt_world (action_loop ex inp w))"
      by simp
  qed
  with assms(2) show ?thesis by simp
qed

theorem main_ledger_head_witness:
  "ledger_refines fake_ledger fake_exec \<and>
   curr_oracle_updated_tx (halt_world (main fake_exec new_fake demo_params ''My Oracle'' [''1'', ''8''])) \<noteq> None \<and>
   ledger_agrees fake_ledger (halt_world (main fake_exec new_fake demo_params ''My Oracle'' [''1'', ''8'']))"
proof -
  have a: "curr_oracle_updated_tx (halt_world (main fake_exec new_fake demo_params ''My Oracle'' [''1'', ''8''])) \<noteq> None"
    by (simp add: fake_eval)
  show ?thesis using fake_exec_ledger a main_ledger_head[OF fake_exec_ledger a] by blast
qed


text \<open>Both bounds are reached: two Generate actions on the fake chain.\<close>

lemma main_bounds_reached:
  "2 * length (calls_of (events (halt_world (main fake_exec new_fake demo_params ''My Oracle'' [''1'', ''8'', ''1'', ''8''])))) = 6 + 3 * 4 \<and>
   sum_list (slept_of (events (halt_world (main fake_exec new_fake demo_params ''My Oracle'' [''1'', ''8'', ''1'', ''8''])))) = confirmation_ms * (3 + 4)"
  by (simp add: fake_eval)

end
